theory Spec2Isabelle
  imports Main
begin

section \<open>Exceptions\<close>

text \<open>
  The exceptions that the modelled code raises, catches or lets through. \<open>OSError\<close> is the
  read failure that the bin walk catches; \<open>IndexError\<close> is what list indexing raises;
  \<open>NoTcacheError\<close> is raised by the explorer when tcaches are disabled; \<open>OtherError\<close>
  stands for any exception of another class coming out of a collaborator. A computation
  that may raise returns \<open>error + 'a\<close>, with \<open>Inl\<close> for the raise.
\<close>

datatype error = OSError | IndexError | NoTcacheError | OtherError

section \<open>Data model\<close>

text \<open>
  Modelled from the spec: the class MallocChunk (malloc_chunk.py) is not among the
  sources; the record carries the header fields the spec lists for a chunk. Addresses and
  sizes are Python integers, hence \<open>int\<close>.
\<close>

record malloc_chunk =
  address :: int
  prev_size :: int
  size :: int
  fd :: int
  bk :: int
  fd_demangled :: int

text \<open>Class BinEntry of bin.py.\<close>

record bin_entry =
  address :: int
  fd :: int
  bk :: int
  chunks_size :: int

text \<open>
  Class Bin of bin.py: the fields \<open>_bin_entry\<close>, \<open>_malloc_chunks\<close> and \<open>_safe_link\<close>
  set by the constructor. \<open>Bin_init\<close> is the constructor with its three arguments; a
  caller that leaves the third one out gets the default \<open>False\<close>.
\<close>

record bin =
  bin_entry :: bin_entry
  malloc_chunks :: "malloc_chunk list"
  safe_link :: bool

definition Bin_init :: "bin_entry \<Rightarrow> malloc_chunk list \<Rightarrow> bool \<Rightarrow> bin" where
  "Bin_init bin_entry' malloc_chunks' safe_link' =
     \<lparr>bin_entry = bin_entry', malloc_chunks = malloc_chunks', safe_link = safe_link'\<rparr>"

definition Bin_init_default :: "bin_entry \<Rightarrow> malloc_chunk list \<Rightarrow> bin" where
  "Bin_init_default bin_entry' malloc_chunks' = Bin_init bin_entry' malloc_chunks' False"

text \<open>The properties \<open>chunks\<close> (an alias of \<open>malloc_chunks\<close>) and \<open>__len__\<close> of Bin.\<close>

definition Bin_chunks :: "bin \<Rightarrow> malloc_chunk list" where
  "Bin_chunks b = malloc_chunks b"

definition Bin_len :: "bin \<Rightarrow> nat" where
  "Bin_len b = length (malloc_chunks b)"

text \<open>
  Modelled from the spec: BinFactory.create (bin_factory.py) and the classes UnsortedBin,
  SmallBin and LargeBin it instantiates are not among the sources. The spec has a bin as
  the bin entry, the ordered chunk list and the safe-link flag, and has the unsorted,
  small and large bins not safe-linked: the factory passes the entry and the chunks to
  the constructor of Bin and leaves \<open>safe_link\<close> at its default.
\<close>

definition BinFactory_create :: "bin_entry \<Rightarrow> malloc_chunk list \<Rightarrow> bin" where
  "BinFactory_create bin_entry' chunks' = Bin_init_default bin_entry' chunks'"

text \<open>
  Modelled from the spec: the class MallocState (malloc_state.py) is not among the
  sources; the record has its address, the \<open>next\<close> pointer of the arena ring and the bin
  entries that BinParser reads from it.
\<close>

record malloc_state =
  address :: int
  "next" :: int
  unsorted_bin :: bin_entry
  small_bins :: "bin_entry list"
  large_bins :: "bin_entry list"

text \<open>
  Modelled from the spec: the class Heap (heap.py) is not among the sources; the explorer
  reads its chunk list only.
\<close>

record heap =
  chunks :: "malloc_chunk list"

text \<open>The tcaches of one arena are a sequence of bins (class Bins of bin.py).\<close>

type_synonym tcaches = "bin list"

section \<open>BinParser\<close>

text \<open>
  Modelled from the spec: the class MallocChunkParser (malloc_chunk.py) is not among the
  sources. BinParser uses its attribute \<open>pointer_size\<close> and its method
  \<open>parse_from_address\<close>, which returns the chunk decoded at an address or raises. The
  method reads the memory of the target: each call is recorded in a list of the addresses
  asked for (\<open>reads\<close>), which the walk threads through.
\<close>

record malloc_chunk_parser =
  pointer_size :: int
  parse_from_address :: "int \<Rightarrow> error + malloc_chunk"

text \<open>
  Class BinParser of bin_parser.py and its constructor. The names of the source are kept,
  without the leading underscore of private attributes and methods.
\<close>

record bin_parser =
  pointer_size :: int
  malloc_chunk_parser :: malloc_chunk_parser

definition BinParser_init :: "malloc_chunk_parser \<Rightarrow> bin_parser" where
  "BinParser_init malloc_chunk_parser' =
     \<lparr>bin_parser.pointer_size = malloc_chunk_parser.pointer_size malloc_chunk_parser',
      malloc_chunk_parser = malloc_chunk_parser'\<rparr>"

text \<open>
  The \<open>while\<close> loop of \<open>_parse_from_bin_entry\<close>, on its three variables \<open>chunks\<close>,
  \<open>addresses\<close> and \<open>current_address\<close>. An iteration appends the current address to
  \<open>addresses\<close> and calls the chunk parser; a parsed chunk is appended and its \<open>fd\<close> is
  the next address; \<open>OSError\<close> leaves the loop; any other exception is not caught. The
  loop returns its final \<open>chunks\<close> and \<open>addresses\<close>, or the exception, together with
  the reads made. \<open>None\<close> is a loop that runs forever.
\<close>

partial_function (option) parse_from_bin_entry_loop ::
  "bin_parser \<Rightarrow> malloc_chunk list \<Rightarrow> int list \<Rightarrow> int \<Rightarrow> int list
     \<Rightarrow> ((error + malloc_chunk list \<times> int list) \<times> int list) option" where
  "parse_from_bin_entry_loop self chunks' addresses current_address reads =
     (if current_address \<notin> set addresses then
        (case parse_from_address (malloc_chunk_parser self) current_address of
           Inr chunk \<Rightarrow>
             parse_from_bin_entry_loop self (chunks' @ [chunk]) (addresses @ [current_address])
               (malloc_chunk.fd chunk) (reads @ [current_address])
         | Inl e \<Rightarrow>
             (if e = OSError
              then Some (Inr (chunks', addresses @ [current_address]), reads @ [current_address])
              else Some (Inl e, reads @ [current_address])))
      else Some (Inr (chunks', addresses), reads))"

declare parse_from_bin_entry_loop.simps [code]

definition parse_from_bin_entry ::
  "bin_parser \<Rightarrow> bin_entry \<Rightarrow> int list \<Rightarrow> ((error + bin) \<times> int list) option" where
  "parse_from_bin_entry self bin_entry' reads =
     (let base_bin_address = bin_entry.address bin_entry' - (bin_parser.pointer_size self * 2);
          addresses = [base_bin_address];
          current_address = bin_entry.fd bin_entry'
      in case parse_from_bin_entry_loop self [] addresses current_address reads of
           None \<Rightarrow> None
         | Some (Inl e, reads') \<Rightarrow> Some (Inl e, reads')
         | Some (Inr (chunks', addresses'), reads') \<Rightarrow>
             Some (Inr (BinFactory_create bin_entry' chunks'), reads'))"

text \<open>
  The state of the walk when it ends: the loop started as \<open>_parse_from_bin_entry\<close>
  starts it. It shows the local list \<open>addresses\<close>, which the returned bin does not keep.
\<close>

definition bin_walk ::
  "bin_parser \<Rightarrow> bin_entry \<Rightarrow> int list
     \<Rightarrow> ((error + malloc_chunk list \<times> int list) \<times> int list) option" where
  "bin_walk self bin_entry' reads =
     parse_from_bin_entry_loop self []
       [bin_entry.address bin_entry' - (bin_parser.pointer_size self * 2)]
       (bin_entry.fd bin_entry') reads"

definition parse_unsorted_bin_from_malloc_state ::
  "bin_parser \<Rightarrow> malloc_state \<Rightarrow> int list \<Rightarrow> ((error + bin) \<times> int list) option" where
  "parse_unsorted_bin_from_malloc_state self malloc_state' reads =
     parse_from_bin_entry self (unsorted_bin malloc_state') reads"

text \<open>
  The \<open>for\<close> loop of \<open>parse_small_bins_from_malloc_state\<close> and of
  \<open>parse_large_bins_from_malloc_state\<close>: one walk for each entry, in order, the bins
  appended to the list built so far.
\<close>

fun parse_bin_entries ::
  "bin_parser \<Rightarrow> bin_entry list \<Rightarrow> bin list \<Rightarrow> int list
     \<Rightarrow> ((error + bin list) \<times> int list) option" where
  "parse_bin_entries self [] bins reads = Some (Inr bins, reads)"
| "parse_bin_entries self (entry # entries) bins reads =
     (case parse_from_bin_entry self entry reads of
        None \<Rightarrow> None
      | Some (Inl e, reads') \<Rightarrow> Some (Inl e, reads')
      | Some (Inr b, reads') \<Rightarrow> parse_bin_entries self entries (bins @ [b]) reads')"

definition parse_small_bins_from_malloc_state ::
  "bin_parser \<Rightarrow> malloc_state \<Rightarrow> int list \<Rightarrow> ((error + bin list) \<times> int list) option" where
  "parse_small_bins_from_malloc_state self malloc_state' reads =
     parse_bin_entries self (small_bins malloc_state') [] reads"

definition parse_large_bins_from_malloc_state ::
  "bin_parser \<Rightarrow> malloc_state \<Rightarrow> int list \<Rightarrow> ((error + bin list) \<times> int list) option" where
  "parse_large_bins_from_malloc_state self malloc_state' reads =
     parse_bin_entries self (large_bins malloc_state') [] reads"

section \<open>HeapExplorer\<close>

text \<open>
  Python list indexing \<open>xs[i]\<close>: an index from \<open>-len(xs)\<close> to \<open>len(xs) - 1\<close> selects an
  element, a negative one counting from the end; any other index raises \<open>IndexError\<close>.
\<close>

definition getitem :: "'a list \<Rightarrow> int \<Rightarrow> error + 'a" where
  "getitem xs i =
     (if 0 \<le> i \<and> i < int (length xs) then Inr (xs ! nat i)
      else if - int (length xs) \<le> i \<and> i < 0 then Inr (xs ! nat (int (length xs) + i))
      else Inl IndexError)"

text \<open>
  Modelled from the spec: the class ProcessInformer (process_informer.py) is not among
  the sources. The explorer reads its attributes \<open>main_arena_address\<close> and
  \<open>pointer_size\<close> and calls \<open>is_libc_version_lower_than\<close>, which the spec derives from
  \<open>libc_version\<close>: the version tuple is compared with the given one as Python compares
  tuples, element by element, a proper prefix being the smaller.
\<close>

record process_informer =
  main_arena_address :: int
  pointer_size :: int
  libc_version :: "int list"

fun tuple_less :: "int list \<Rightarrow> int list \<Rightarrow> bool" where
  "tuple_less [] [] = False"
| "tuple_less [] (y # ys) = True"
| "tuple_less (x # xs) [] = False"
| "tuple_less (x # xs) (y # ys) = (x < y \<or> (x = y \<and> tuple_less xs ys))"

definition is_libc_version_lower_than :: "process_informer \<Rightarrow> int list \<Rightarrow> bool" where
  "is_libc_version_lower_than self version = tuple_less (libc_version self) version"

text \<open>
  The calls that the explorer makes to its parsers, which read the memory of the target.
  Every method of the explorer takes the list of the calls made so far and returns it
  extended by its own.
\<close>

datatype call =
    ParseAllMallocStates int
  | ParseHeap malloc_state
  | ParseTcaches malloc_state

text \<open>
  The object as \<open>__init__\<close> has built it when it calls \<open>_are_tcaches_enabled\<close>, and the
  finished object, which adds \<open>tcaches_enabled\<close> and \<open>_tcache_parser\<close>. The classes
  MallocStateParser, HeapParser and EnabledTcacheParser are not among the sources: each
  parser is held as the one method that the explorer calls on it
  (\<open>parse_all_from_main_malloc_state_address\<close>, \<open>parse_from_malloc_state\<close>,
  \<open>parse_all_from_malloc_state\<close>).
\<close>

record heap_explorer_partial =
  process_informer :: process_informer
  main_arena_address :: int
  pointer_size :: int
  malloc_state_parser :: "int \<Rightarrow> error + malloc_state list"
  heap_parser :: "malloc_state \<Rightarrow> error + heap"

record heap_explorer = heap_explorer_partial +
  tcaches_enabled :: bool
  tcache_parser :: "malloc_state \<Rightarrow> error + tcaches"

definition all_arenas_malloc_states ::
  "'a heap_explorer_partial_scheme \<Rightarrow> call list \<Rightarrow> (error + malloc_state list) \<times> call list" where
  "all_arenas_malloc_states self calls =
     (malloc_state_parser self (heap_explorer_partial.main_arena_address self),
      calls @ [ParseAllMallocStates (heap_explorer_partial.main_arena_address self)])"

definition arenas_count ::
  "'a heap_explorer_partial_scheme \<Rightarrow> call list \<Rightarrow> (error + int) \<times> call list" where
  "arenas_count self calls =
     (case all_arenas_malloc_states self calls of
        (Inl e, calls') \<Rightarrow> (Inl e, calls')
      | (Inr malloc_states, calls') \<Rightarrow> (Inr (int (length malloc_states)), calls'))"

definition malloc_state ::
  "'a heap_explorer_partial_scheme \<Rightarrow> int \<Rightarrow> call list \<Rightarrow> (error + malloc_state) \<times> call list" where
  "malloc_state self arena_index calls =
     (case all_arenas_malloc_states self calls of
        (Inl e, calls') \<Rightarrow> (Inl e, calls')
      | (Inr malloc_states, calls') \<Rightarrow> (getitem malloc_states arena_index, calls'))"

definition heap ::
  "'a heap_explorer_partial_scheme \<Rightarrow> int \<Rightarrow> call list \<Rightarrow> (error + heap) \<times> call list" where
  "heap self arena_index calls =
     (case malloc_state self arena_index calls of
        (Inl e, calls') \<Rightarrow> (Inl e, calls')
      | (Inr malloc_state', calls') \<Rightarrow>
          (heap_parser self malloc_state', calls' @ [ParseHeap malloc_state']))"

definition are_tcaches_enabled ::
  "'a heap_explorer_partial_scheme \<Rightarrow> call list \<Rightarrow> (error + bool) \<times> call list" where
  "are_tcaches_enabled self calls =
     (if is_libc_version_lower_than (process_informer self) [2, 26] then (Inr False, calls)
      else
        let tcache_chunk_size = heap_explorer_partial.pointer_size self * 64 + 0x50
        in case heap self 0 calls of
             (Inl e, calls') \<Rightarrow> (Inl e, calls')
           | (Inr heap', calls') \<Rightarrow>
               (case getitem (heap.chunks heap') 0 of
                  Inl e \<Rightarrow> (Inl e, calls')
                | Inr chunk \<Rightarrow> (Inr (tcache_chunk_size = malloc_chunk.size chunk), calls')))"

text \<open>
  Modelled from the spec: the class DisabledTcacheParser is not among the sources; its
  \<open>parse_all_from_malloc_state\<close> fails with \<open>NoTcacheError\<close>.
\<close>

definition DisabledTcacheParser_parse_all_from_malloc_state ::
  "malloc_state \<Rightarrow> error + tcaches" where
  "DisabledTcacheParser_parse_all_from_malloc_state malloc_state' = Inl NoTcacheError"

text \<open>
  The constructor. The source builds the informer and the parsers from a process id and a
  libc; the model takes them built: the informer, and the methods of the malloc state
  parser, of the heap parser and of the enabled tcache parser. An exception raised by
  \<open>_are_tcaches_enabled\<close> leaves the constructor; otherwise the two last fields are
  added to the object built so far (\<open>extend\<close>).
\<close>

definition HeapExplorer_init ::
  "process_informer \<Rightarrow> (int \<Rightarrow> error + malloc_state list) \<Rightarrow> (malloc_state \<Rightarrow> error + heap)
     \<Rightarrow> (malloc_state \<Rightarrow> error + tcaches) \<Rightarrow> call list \<Rightarrow> (error + heap_explorer) \<times> call list" where
  "HeapExplorer_init process_informer' malloc_state_parser' heap_parser' enabled_tcache_parser calls =
     (let self = \<lparr>process_informer = process_informer',
                  heap_explorer_partial.main_arena_address =
                    process_informer.main_arena_address process_informer',
                  heap_explorer_partial.pointer_size =
                    process_informer.pointer_size process_informer',
                  malloc_state_parser = malloc_state_parser',
                  heap_parser = heap_parser'\<rparr>
      in case are_tcaches_enabled self calls of
           (Inl e, calls') \<Rightarrow> (Inl e, calls')
         | (Inr enabled, calls') \<Rightarrow>
             (Inr (heap_explorer_partial.extend self
                     (heap_explorer.fields enabled
                        (if enabled then enabled_tcache_parser
                         else DisabledTcacheParser_parse_all_from_malloc_state))),
              calls'))"

definition tcaches ::
  "heap_explorer \<Rightarrow> int \<Rightarrow> call list \<Rightarrow> (error + tcaches) \<times> call list" where
  "tcaches self arena_index calls =
     (if \<not> tcaches_enabled self then (Inl NoTcacheError, calls)
      else case malloc_state self arena_index calls of
             (Inl e, calls') \<Rightarrow> (Inl e, calls')
           | (Inr malloc_state', calls') \<Rightarrow>
               (tcache_parser self malloc_state', calls' @ [ParseTcaches malloc_state']))"

text \<open>The \<open>for\<close> loop of \<open>all_arenas_tcaches\<close>.\<close>

fun all_arenas_tcaches_loop ::
  "heap_explorer \<Rightarrow> malloc_state list \<Rightarrow> tcaches list \<Rightarrow> call list
     \<Rightarrow> (error + tcaches list) \<times> call list" where
  "all_arenas_tcaches_loop self [] all_tcaches calls = (Inr all_tcaches, calls)"
| "all_arenas_tcaches_loop self (malloc_state' # malloc_states) all_tcaches calls =
     (case tcache_parser self malloc_state' of
        Inl e \<Rightarrow> (Inl e, calls @ [ParseTcaches malloc_state'])
      | Inr t \<Rightarrow>
          all_arenas_tcaches_loop self malloc_states (all_tcaches @ [t])
            (calls @ [ParseTcaches malloc_state']))"

definition all_arenas_tcaches ::
  "heap_explorer \<Rightarrow> call list \<Rightarrow> (error + tcaches list) \<times> call list" where
  "all_arenas_tcaches self calls =
     (if \<not> tcaches_enabled self then (Inl NoTcacheError, calls)
      else case all_arenas_malloc_states self calls of
             (Inl e, calls') \<Rightarrow> (Inl e, calls')
           | (Inr malloc_states, calls') \<Rightarrow> all_arenas_tcaches_loop self malloc_states [] calls')"

section \<open>The arena ring\<close>

text \<open>
  Modelled from the spec: MallocStateParser.parse_all_from_main_malloc_state_address
  (malloc_state.py) is not among the sources. The spec has it walk the \<open>next\<close> ring from
  the address of the main arena, emit each malloc state once and end at a \<open>next\<close> already
  observed; an arena that cannot be read is skipped, which ends the enumeration, its
  \<open>next\<close> being unknown. The arenas of the target are a table from the addresses that
  can be read to the malloc states decoded there.
\<close>

function ring_walk ::
  "(int \<times> malloc_state) list \<Rightarrow> malloc_state list \<Rightarrow> int list \<Rightarrow> int \<Rightarrow> malloc_state list" where
  "ring_walk arenas malloc_states observed current_address =
     (if current_address \<in> set observed then malloc_states
      else case map_of arenas current_address of
             None \<Rightarrow> malloc_states
           | Some malloc_state' \<Rightarrow>
               ring_walk arenas (malloc_states @ [malloc_state'])
                 (observed @ [current_address]) (malloc_state.next malloc_state'))"
  by pat_completeness auto
termination
proof (relation "measure (\<lambda>(arenas, malloc_states, observed, current_address).
                   card (fst ` set arenas - set observed))")
  show "wf (measure (\<lambda>(arenas, malloc_states, observed, current_address).
              card (fst ` set arenas - set observed)))"
    by simp
next
  fix arenas :: "(int \<times> malloc_state) list" and malloc_states :: "malloc_state list"
    and observed :: "int list" and current_address :: int and x2 :: malloc_state
  assume fresh: "current_address \<notin> set observed"
    and mapped: "map_of arenas current_address = Some x2"
  have "current_address \<in> fst ` set arenas"
    using mapped by (force dest: map_of_SomeD)
  then have "current_address \<in> fst ` set arenas - set observed"
    using fresh by simp
  then have "card ((fst ` set arenas - set observed) - {current_address})
             < card (fst ` set arenas - set observed)"
    by (intro card_Diff1_less) simp_all
  moreover have "fst ` set arenas - set (observed @ [current_address])
                 = (fst ` set arenas - set observed) - {current_address}"
    by auto
  ultimately have "card (fst ` set arenas - set (observed @ [current_address]))
                   < card (fst ` set arenas - set observed)"
    by (simp only:)
  then show "((arenas, malloc_states @ [x2], observed @ [current_address], malloc_state.next x2),
              (arenas, malloc_states, observed, current_address))
             \<in> measure (\<lambda>(arenas, malloc_states, observed, current_address).
                   card (fst ` set arenas - set observed))"
    by simp
qed

definition parse_all_from_main_malloc_state_address ::
  "(int \<times> malloc_state) list \<Rightarrow> int \<Rightarrow> error + malloc_state list" where
  "parse_all_from_main_malloc_state_address arenas main_malloc_state_address =
     Inr (ring_walk arenas [] [] main_malloc_state_address)"

section \<open>Memory images used as examples\<close>

text \<open>
  A memory image given as a table of the chunks that can be read: the parser returns the
  chunk of an address in the table and raises \<open>OSError\<close> at any other address. The
  examples are 64-bit.
\<close>

definition memory_image :: "(int \<times> malloc_chunk) list \<Rightarrow> int \<Rightarrow> error + malloc_chunk" where
  "memory_image table a = (case map_of table a of None \<Rightarrow> Inl OSError | Some chunk \<Rightarrow> Inr chunk)"

definition parser_of :: "(int \<times> malloc_chunk) list \<Rightarrow> bin_parser" where
  "parser_of table =
     BinParser_init \<lparr>malloc_chunk_parser.pointer_size = 8, parse_from_address = memory_image table\<rparr>"

definition chunk_at :: "int \<Rightarrow> int \<Rightarrow> malloc_chunk" where
  "chunk_at a next_address =
     \<lparr>malloc_chunk.address = a, prev_size = 0, size = 0x90, malloc_chunk.fd = next_address,
      malloc_chunk.bk = 0x7000, fd_demangled = 0x41\<rparr>"

text \<open>An empty bin: the cell of the bin is at \<open>0x7010\<close>, its sentinel at \<open>0x7000\<close>.\<close>

definition empty_entry :: bin_entry where
  "empty_entry = \<lparr>bin_entry.address = 0x7010, bin_entry.fd = 0x7000, bin_entry.bk = 0x7000,
                  chunks_size = 0\<rparr>"

text \<open>
  The unsorted bin of an arena with one free chunk at \<open>0xC000\<close>: the cell of the bin is at
  \<open>0x7010\<close>, the sentinel at \<open>0x7000\<close>. In the first table the chunk's \<open>fd\<close> is the
  address of the cell, where the malloc state can be read as a chunk; in the second it is
  the sentinel, as the allocator writes it. The third table holds a bin of two chunks, the
  fourth a chain that leaves the readable memory after two chunks.
\<close>

definition one_chunk_entry :: bin_entry where
  "one_chunk_entry = \<lparr>bin_entry.address = 0x7010, bin_entry.fd = 0xC000, bin_entry.bk = 0xC000,
                      chunks_size = 0\<rparr>"

definition fd_to_cell_table :: "(int \<times> malloc_chunk) list" where
  "fd_to_cell_table = [(0xC000, chunk_at 0xC000 0x7010), (0x7010, chunk_at 0x7010 0x7010)]"

definition fd_to_sentinel_table :: "(int \<times> malloc_chunk) list" where
  "fd_to_sentinel_table = [(0xC000, chunk_at 0xC000 0x7000), (0x7000, chunk_at 0x7000 0xC000)]"

definition two_chunks_table :: "(int \<times> malloc_chunk) list" where
  "two_chunks_table = [(0xC000, chunk_at 0xC000 0xD000), (0xD000, chunk_at 0xD000 0x7000)]"

definition broken_chain_table :: "(int \<times> malloc_chunk) list" where
  "broken_chain_table = [(0xC000, chunk_at 0xC000 0xD000), (0xD000, chunk_at 0xD000 0xE000)]"

text \<open>
  The bin of two chunks again, with other values in \<open>fd_demangled\<close>, and a malloc state
  whose unsorted bin, second small bin and large bin are that bin.
\<close>

definition remangled_table :: "(int \<times> malloc_chunk) list" where
  "remangled_table = [(0xC000, (chunk_at 0xC000 0xD000)\<lparr>fd_demangled := 0xD00C\<rparr>),
                      (0xD000, (chunk_at 0xD000 0x7000)\<lparr>fd_demangled := 0x700D\<rparr>)]"

definition arena_with_bins :: malloc_state where
  "arena_with_bins =
     \<lparr>malloc_state.address = 0x7F0000, next = 0x7F0000, unsorted_bin = one_chunk_entry,
      small_bins = [empty_entry, one_chunk_entry], large_bins = [one_chunk_entry]\<rparr>"

text \<open>
  Processes used as examples: 64-bit, the main arena at \<open>0x7F0000\<close>, a ring of one arena
  or of two, a main heap whose first chunk has a given size, and an enabled tcache parser
  that finds no bins. The two explorers are what the constructor builds for libc 2.25 and
  for libc 2.31 on the ring of two arenas.
\<close>

definition arena_at :: "int \<Rightarrow> int \<Rightarrow> malloc_state" where
  "arena_at a next_address =
     \<lparr>malloc_state.address = a, next = next_address, unsorted_bin = empty_entry,
      small_bins = [], large_bins = []\<rparr>"

definition informer_of :: "int list \<Rightarrow> process_informer" where
  "informer_of version =
     \<lparr>process_informer.main_arena_address = 0x7F0000, process_informer.pointer_size = 8,
      libc_version = version\<rparr>"

definition heap_with_first_size :: "int \<Rightarrow> malloc_state \<Rightarrow> error + heap" where
  "heap_with_first_size first_size malloc_state' =
     Inr \<lparr>heap.chunks = [(chunk_at 0x1000 0)\<lparr>size := first_size\<rparr>, chunk_at 0x2000 0]\<rparr>"

definition no_tcaches :: "malloc_state \<Rightarrow> error + tcaches" where
  "no_tcaches malloc_state' = Inr []"

definition self_ring :: "(int \<times> malloc_state) list" where
  "self_ring = [(0x7F0000, arena_at 0x7F0000 0x7F0000)]"

definition two_arena_ring :: "(int \<times> malloc_state) list" where
  "two_arena_ring = [(0x7F0000, arena_at 0x7F0000 0x7E0000), (0x7E0000, arena_at 0x7E0000 0x7F0000)]"

definition explorer_of :: "(int \<times> malloc_state) list \<Rightarrow> heap_explorer_partial" where
  "explorer_of arenas =
     \<lparr>process_informer = informer_of [2, 31],
      heap_explorer_partial.main_arena_address = 0x7F0000,
      heap_explorer_partial.pointer_size = 8,
      malloc_state_parser = parse_all_from_main_malloc_state_address arenas,
      heap_parser = heap_with_first_size 0x250\<rparr>"

definition old_libc_explorer :: heap_explorer where
  "old_libc_explorer =
     \<lparr>process_informer = informer_of [2, 25],
      heap_explorer_partial.main_arena_address = 0x7F0000,
      heap_explorer_partial.pointer_size = 8,
      malloc_state_parser = parse_all_from_main_malloc_state_address two_arena_ring,
      heap_parser = heap_with_first_size 0x250,
      tcaches_enabled = False,
      tcache_parser = DisabledTcacheParser_parse_all_from_malloc_state\<rparr>"

definition new_libc_explorer :: heap_explorer where
  "new_libc_explorer =
     \<lparr>process_informer = informer_of [2, 31],
      heap_explorer_partial.main_arena_address = 0x7F0000,
      heap_explorer_partial.pointer_size = 8,
      malloc_state_parser = parse_all_from_main_malloc_state_address two_arena_ring,
      heap_parser = heap_with_first_size 0x250,
      tcaches_enabled = True,
      tcache_parser = no_tcaches\<rparr>"

section \<open>Properties of the loop\<close>

text \<open>
  What a loop that has ended has done, from any state it is started in: the reads it added
  (\<open>rd\<close>) are pairwise distinct and none was in \<open>addresses\<close>; they are \<open>current\<close> and
  then the \<open>fd\<close> of each chunk in turn; the chunks it added (\<open>cs\<close>) are what the parser
  returns at the first reads, and at most one read has no chunk.
\<close>

lemma loop_result:
  assumes "parse_from_bin_entry_loop self cs0 addresses current reads = Some y"
  shows "\<exists>rd cs. snd y = reads @ rd \<and> distinct rd \<and> set rd \<inter> set addresses = {}
           \<and> length cs \<le> length rd \<and> length rd \<le> Suc (length cs)
           \<and> rd = take (length rd) (current # map malloc_chunk.fd cs)
           \<and> map (parse_from_address (malloc_chunk_parser self)) (take (length cs) rd) = map Inr cs
           \<and> (case fst y of
                 Inr (cs', addrs') \<Rightarrow> cs' = cs0 @ cs \<and> addrs' = addresses @ rd
               | Inl e \<Rightarrow> e \<noteq> OSError)"
proof (induct rule: parse_from_bin_entry_loop.raw_induct [OF _ assms])
  case (1 loop self cs0 addresses current reads y)
  show ?case
  proof (cases "current \<in> set addresses")
    case True
    with "1.hyps" (2) have "y = (Inr (cs0, addresses), reads)" by simp
    then show ?thesis by (intro exI [of _ "[]"]) simp
  next
    case False
    show ?thesis
    proof (cases "parse_from_address (malloc_chunk_parser self) current")
      case (Inl e)
      with False "1.hyps" (2) have "snd y = reads @ [current]"
        and "case fst y of Inr (cs', addrs') \<Rightarrow> cs' = cs0 @ [] \<and> addrs' = addresses @ [current]
             | Inl e \<Rightarrow> e \<noteq> OSError"
        by (auto split: if_splits)
      with False show ?thesis
        by (intro exI [of _ "[current]"] exI [of _ "[]"]) simp
    next
      case (Inr chunk)
      with False "1.hyps" (2)
      have "loop self (cs0 @ [chunk]) (addresses @ [current]) (malloc_chunk.fd chunk)
              (reads @ [current]) = Some y"
        by simp
      from "1.hyps" (1) [OF this] obtain rd cs where rd: "snd y = (reads @ [current]) @ rd"
        "distinct rd" "set rd \<inter> set (addresses @ [current]) = {}"
        "length cs \<le> length rd" "length rd \<le> Suc (length cs)"
        "rd = take (length rd) (malloc_chunk.fd chunk # map malloc_chunk.fd cs)"
        "map (parse_from_address (malloc_chunk_parser self)) (take (length cs) rd) = map Inr cs"
        "case fst y of
           Inr (cs', addrs') \<Rightarrow> cs' = (cs0 @ [chunk]) @ cs \<and> addrs' = (addresses @ [current]) @ rd
         | Inl e \<Rightarrow> e \<noteq> OSError"
        by blast
      have "snd y = reads @ (current # rd)" using rd(1) by simp
      moreover have "distinct (current # rd)" using rd(2,3) by auto
      moreover have "set (current # rd) \<inter> set addresses = {}" using rd(3) False by auto
      moreover have "length (chunk # cs) \<le> length (current # rd)" using rd(4) by simp
      moreover have "length (current # rd) \<le> Suc (length (chunk # cs))" using rd(5) by simp
      moreover have "current # rd = take (length (current # rd))
                       (current # map malloc_chunk.fd (chunk # cs))"
        using rd(6) by simp
      moreover have "map (parse_from_address (malloc_chunk_parser self))
                       (take (length (chunk # cs)) (current # rd)) = map Inr (chunk # cs)"
        using rd(7) Inr by simp
      moreover have "case fst y of
           Inr (cs', addrs') \<Rightarrow> cs' = cs0 @ (chunk # cs) \<and> addrs' = addresses @ (current # rd)
         | Inl e \<Rightarrow> e \<noteq> OSError"
        using rd(8) by (simp split: sum.splits prod.splits)
      ultimately show ?thesis
        by (intro exI [of _ "current # rd"] exI [of _ "chunk # cs"] conjI)
    qed
  qed
qed

lemma loop_terminates:
  assumes fin: "finite {a. \<exists>c. parse_from_address (malloc_chunk_parser self) a = Inr c}"
  shows "\<exists>y. parse_from_bin_entry_loop self cs0 addresses current reads = Some y"
proof (induction "card ({a. \<exists>c. parse_from_address (malloc_chunk_parser self) a = Inr c} - set addresses)"
        arbitrary: cs0 addresses current reads rule: less_induct)
  case less
  let ?R = "{a. \<exists>c. parse_from_address (malloc_chunk_parser self) a = Inr c}"
  show ?case
  proof (cases "current \<in> set addresses")
    case True
    then show ?thesis by (subst parse_from_bin_entry_loop.simps) simp
  next
    case False
    show ?thesis
    proof (cases "parse_from_address (malloc_chunk_parser self) current")
      case (Inl e)
      with False show ?thesis by (subst parse_from_bin_entry_loop.simps) simp
    next
      case (Inr chunk)
      then have "current \<in> ?R - set addresses" using False by simp
      then have "card ((?R - set addresses) - {current}) < card (?R - set addresses)"
        using fin by (intro card_Diff1_less) simp_all
      moreover have "?R - set (addresses @ [current]) = (?R - set addresses) - {current}"
        by auto
      ultimately have "card (?R - set (addresses @ [current])) < card (?R - set addresses)"
        by (simp only:)
      from less [OF this]
      obtain y where "parse_from_bin_entry_loop self (cs0 @ [chunk]) (addresses @ [current])
                        (malloc_chunk.fd chunk) (reads @ [current]) = Some y"
        by blast
      with False Inr show ?thesis by (subst parse_from_bin_entry_loop.simps) simp
    qed
  qed
qed

lemma loop_prefix_then_read_error:
  assumes "length as = Suc (length cs)"
    and "\<forall>i<length cs. parse_from_address (malloc_chunk_parser self) (as ! i) = Inr (cs ! i)
                          \<and> as ! Suc i = malloc_chunk.fd (cs ! i)"
    and "distinct (addresses @ as)"
    and "parse_from_address (malloc_chunk_parser self) (last as) = Inl OSError"
  shows "parse_from_bin_entry_loop self cs0 addresses (as ! 0) reads
         = Some (Inr (cs0 @ cs, addresses @ as), reads @ as)"
  using assms
proof (induction cs arbitrary: cs0 addresses as reads)
  case Nil
  then obtain a where as: "as = [a]" by (cases as) auto
  with Nil show ?case by (subst parse_from_bin_entry_loop.simps) simp
next
  case (Cons c cs)
  then obtain a as' where as: "as = a # as'" and len: "length as' = Suc (length cs)"
    by (cases as) auto
  have head: "parse_from_address (malloc_chunk_parser self) a = Inr c"
    and nxt: "as' ! 0 = malloc_chunk.fd c"
    using Cons.prems(2) as by auto
  have rest: "\<forall>i<length cs. parse_from_address (malloc_chunk_parser self) (as' ! i) = Inr (cs ! i)
                          \<and> as' ! Suc i = malloc_chunk.fd (cs ! i)"
  proof (intro allI impI)
    fix i
    assume "i < length cs"
    then have "Suc i < length (c # cs)" by simp
    with Cons.prems(2)
    have "parse_from_address (malloc_chunk_parser self) (as ! Suc i) = Inr ((c # cs) ! Suc i)
          \<and> as ! Suc (Suc i) = malloc_chunk.fd ((c # cs) ! Suc i)"
      by blast
    then show "parse_from_address (malloc_chunk_parser self) (as' ! i) = Inr (cs ! i)
               \<and> as' ! Suc i = malloc_chunk.fd (cs ! i)"
      using as by simp
  qed
  have fresh: "a \<notin> set addresses" and dist: "distinct ((addresses @ [a]) @ as')"
    using Cons.prems(3) as by auto
  have lst: "parse_from_address (malloc_chunk_parser self) (last as') = Inl OSError"
    using Cons.prems(4) as len by (cases as') auto
  have "parse_from_bin_entry_loop self (cs0 @ [c]) (addresses @ [a]) (as' ! 0) (reads @ [a])
        = Some (Inr ((cs0 @ [c]) @ cs, (addresses @ [a]) @ as'), (reads @ [a]) @ as')"
    by (rule Cons.IH [OF len rest dist lst])
  with fresh head nxt as show ?case
    by (subst parse_from_bin_entry_loop.simps) simp
qed

lemma parse_from_bin_entry_walk:
  "parse_from_bin_entry self be reads =
     map_option (\<lambda>(res, rd). (map_sum id (\<lambda>(cs, as). BinFactory_create be cs) res, rd))
       (bin_walk self be reads)"
  by (simp add: parse_from_bin_entry_def bin_walk_def split: option.splits sum.splits prod.splits)

lemma parse_from_bin_entry_Inr:
  assumes "parse_from_bin_entry self be reads = Some (Inr b, reads')"
  shows "\<exists>cs ads. bin_walk self be reads = Some (Inr (cs, ads), reads')
           \<and> b = BinFactory_create be cs"
  using assms
  by (auto simp: parse_from_bin_entry_def bin_walk_def
           split: option.splits sum.splits prod.splits)

lemma malloc_chunks_create: "malloc_chunks (BinFactory_create be cs) = cs"
  by (simp add: BinFactory_create_def Bin_init_default_def Bin_init_def)

lemma address_space_finite:
  assumes "\<forall>a c. parse_from_address (malloc_chunk_parser self) a = Inr c \<longrightarrow> 0 \<le> a \<and> a < bound"
  shows "finite {a. \<exists>c. parse_from_address (malloc_chunk_parser self) a = Inr c}"
proof (rule finite_subset)
  show "{a. \<exists>c. parse_from_address (malloc_chunk_parser self) a = Inr c} \<subseteq> {0..<bound}"
    using assms by auto
  show "finite {0..<bound}" by simp
qed

lemma memory_image_finite:
  "finite {a. \<exists>c. parse_from_address (malloc_chunk_parser (parser_of table)) a = Inr c}"
proof (rule finite_subset)
  show "{a. \<exists>c. parse_from_address (malloc_chunk_parser (parser_of table)) a = Inr c}
        \<subseteq> fst ` set table"
    by (auto simp: parser_of_def BinParser_init_def memory_image_def
             split: option.splits dest!: map_of_SomeD intro: rev_image_eqI)
  show "finite (fst ` set table)" by simp
qed

lemmas fixture_defs = parser_of_def BinParser_init_def memory_image_def chunk_at_def
  one_chunk_entry_def

lemma two_chunks_walk:
  "parse_from_bin_entry (parser_of two_chunks_table) one_chunk_entry []
   = Some (Inr (BinFactory_create one_chunk_entry [chunk_at 0xC000 0xD000, chunk_at 0xD000 0x7000]),
           [0xC000, 0xD000])"
  by (simp add: parse_from_bin_entry_def parse_from_bin_entry_loop.simps fixture_defs
        two_chunks_table_def)

text \<open>
  Two memory images that agree on which reads fail, with which exception, and on the raw
  \<open>fd\<close> of every chunk take the loop through the same reads, to the same exception or
  to chunk lists that agree on the raw \<open>fd\<close>.
\<close>

lemma loop_related:
  assumes run: "parse_from_bin_entry_loop self1 cs1 addresses current reads = Some y1"
    and par: "\<forall>a. rel_sum (=) R (parse_from_address (malloc_chunk_parser self1) a)
                               (parse_from_address (malloc_chunk_parser self2) a)"
    and cs: "list_all2 R cs1 cs2"
    and fd: "\<forall>c1 c2. R c1 c2 \<longrightarrow> malloc_chunk.fd c1 = malloc_chunk.fd c2"
  shows "\<exists>y2. parse_from_bin_entry_loop self2 cs2 addresses current reads = Some y2
              \<and> snd y2 = snd y1
              \<and> rel_sum (=) (rel_prod (list_all2 R) (=)) (fst y1) (fst y2)"
  using par cs
proof (induct arbitrary: cs2 rule: parse_from_bin_entry_loop.raw_induct [OF _ run])
  case (1 loop self1 cs1 addresses current reads y1)
  note par = "1.prems"(1) and cs = "1.prems"(2)
  show ?case
  proof (cases "current \<in> set addresses")
    case True
    with "1.hyps" (2) have "y1 = (Inr (cs1, addresses), reads)" by simp
    with True cs show ?thesis by (subst parse_from_bin_entry_loop.simps) simp
  next
    case False
    show ?thesis
    proof (cases "parse_from_address (malloc_chunk_parser self1) current")
      case (Inl e)
      from par have "rel_sum (=) R (parse_from_address (malloc_chunk_parser self1) current)
                       (parse_from_address (malloc_chunk_parser self2) current)"
        by blast
      with Inl have p2: "parse_from_address (malloc_chunk_parser self2) current = Inl e"
        by (cases "parse_from_address (malloc_chunk_parser self2) current") simp_all
      from Inl False "1.hyps" (2)
      have "y1 = (if e = OSError then (Inr (cs1, addresses @ [current]), reads @ [current])
                  else (Inl e, reads @ [current]))"
        by (simp split: if_splits)
      with False p2 cs show ?thesis by (subst parse_from_bin_entry_loop.simps) simp
    next
      case (Inr c1)
      from par have "rel_sum (=) R (parse_from_address (malloc_chunk_parser self1) current)
                       (parse_from_address (malloc_chunk_parser self2) current)"
        by blast
      with Inr obtain c2 where
        p2: "parse_from_address (malloc_chunk_parser self2) current = Inr c2" and r: "R c1 c2"
        by (cases "parse_from_address (malloc_chunk_parser self2) current") simp_all
      from r fd have f: "malloc_chunk.fd c2 = malloc_chunk.fd c1" by simp
      from Inr False "1.hyps" (2)
      have "loop self1 (cs1 @ [c1]) (addresses @ [current]) (malloc_chunk.fd c1)
              (reads @ [current]) = Some y1"
        by simp
      moreover have "list_all2 R (cs1 @ [c1]) (cs2 @ [c2])"
        using cs r by (simp add: list_all2_appendI)
      ultimately obtain y2 where
        "parse_from_bin_entry_loop self2 (cs2 @ [c2]) (addresses @ [current]) (malloc_chunk.fd c1)
           (reads @ [current]) = Some y2"
        "snd y2 = snd y1" "rel_sum (=) (rel_prod (list_all2 R) (=)) (fst y1) (fst y2)"
        using "1.hyps" (1) par by blast
      with False p2 f show ?thesis by (subst parse_from_bin_entry_loop.simps) simp
    qed
  qed
qed

lemma walk_reads_related:
  assumes size: "bin_parser.pointer_size other = bin_parser.pointer_size self"
    and par: "\<forall>a. rel_sum (=) (\<lambda>c1 c2. malloc_chunk.fd c1 = malloc_chunk.fd c2)
                     (parse_from_address (malloc_chunk_parser self) a)
                     (parse_from_address (malloc_chunk_parser other) a)"
  shows "map_option snd (parse_from_bin_entry other be reads)
         = map_option snd (parse_from_bin_entry self be reads)"
proof -
  let ?R = "\<lambda>c1 c2 :: malloc_chunk. malloc_chunk.fd c1 = malloc_chunk.fd c2"
  have rap: "\<forall>a. rel_sum (=) ?R (parse_from_address (malloc_chunk_parser other) a)
                               (parse_from_address (malloc_chunk_parser self) a)"
  proof
    fix a
    from par have "rel_sum (=) ?R (parse_from_address (malloc_chunk_parser self) a)
                     (parse_from_address (malloc_chunk_parser other) a)"
      by blast
    then show "rel_sum (=) ?R (parse_from_address (malloc_chunk_parser other) a)
                 (parse_from_address (malloc_chunk_parser self) a)"
      by (cases "parse_from_address (malloc_chunk_parser self) a";
          cases "parse_from_address (malloc_chunk_parser other) a") simp_all
  qed
  have sym: "\<forall>c1 c2. ?R c1 c2 \<longrightarrow> malloc_chunk.fd c1 = malloc_chunk.fd c2" by simp
  have walk: "map_option snd (bin_walk other be reads) = map_option snd (bin_walk self be reads)"
  proof (cases "bin_walk self be reads")
    case (Some y1)
    from loop_related [OF Some [unfolded bin_walk_def] par _ sym, of "[]"]
    obtain y2 where "bin_walk other be reads = Some y2" "snd y2 = snd y1"
      unfolding bin_walk_def size by auto
    with Some show ?thesis by simp
  next
    case None
    have "bin_walk other be reads = None"
    proof (cases "bin_walk other be reads")
      case (Some y2)
      from loop_related [OF Some [unfolded bin_walk_def] rap _ sym, of "[]"]
      obtain y1 where "bin_walk self be reads = Some y1"
        unfolding bin_walk_def size by auto
      with None show ?thesis by simp
    qed simp
    with None show ?thesis by simp
  qed
  have "map_option snd (parse_from_bin_entry p be reads) = map_option snd (bin_walk p be reads)" for p
    by (simp add: parse_from_bin_entry_walk option.map_comp comp_def split_def)
  with walk show ?thesis by simp
qed

lemma parse_bin_entries_pointwise:
  assumes "parse_bin_entries self entries acc reads = Some (Inr bins, reads')"
  shows "\<exists>new. bins = acc @ new
           \<and> list_all2 (\<lambda>entry b. \<not> safe_link b
                 \<and> (\<exists>r r'. parse_from_bin_entry self entry r = Some (Inr b, r'))) entries new"
  using assms
proof (induction entries arbitrary: acc reads)
  case Nil
  then show ?case by simp
next
  case (Cons entry entries)
  from Cons.prems obtain b r where
    one: "parse_from_bin_entry self entry reads = Some (Inr b, r)"
    and rest: "parse_bin_entries self entries (acc @ [b]) r = Some (Inr bins, reads')"
    by (auto split: option.splits sum.splits prod.splits)
  from Cons.IH [OF rest] obtain new where new: "bins = (acc @ [b]) @ new"
    "list_all2 (\<lambda>entry b. \<not> safe_link b
        \<and> (\<exists>r r'. parse_from_bin_entry self entry r = Some (Inr b, r'))) entries new"
    by blast
  from parse_from_bin_entry_Inr [OF one] have "\<not> safe_link b"
    by (auto simp: BinFactory_create_def Bin_init_default_def Bin_init_def)
  with one new show ?case by (intro exI [of _ "b # new"]) auto
qed

lemma empty_walk:
  "parse_from_bin_entry (parser_of two_chunks_table) empty_entry reads
   = Some (Inr (BinFactory_create empty_entry []), reads)"
  by (simp add: parse_from_bin_entry_def parse_from_bin_entry_loop.simps fixture_defs
        empty_entry_def)

lemma two_chunks_walk_from:
  "parse_from_bin_entry (parser_of two_chunks_table) one_chunk_entry reads
   = Some (Inr (BinFactory_create one_chunk_entry [chunk_at 0xC000 0xD000, chunk_at 0xD000 0x7000]),
           reads @ [0xC000, 0xD000])"
  by (simp add: parse_from_bin_entry_def parse_from_bin_entry_loop.simps fixture_defs
        two_chunks_table_def)

lemma remangled_agrees:
  "\<forall>a. rel_sum (=) (\<lambda>c1 c2. malloc_chunk.fd c1 = malloc_chunk.fd c2)
         (parse_from_address (malloc_chunk_parser (parser_of two_chunks_table)) a)
         (parse_from_address (malloc_chunk_parser (parser_of remangled_table)) a)"
  by (simp add: fixture_defs two_chunks_table_def remangled_table_def)

section \<open>A bin of one chunk\<close>

text \<open>
  C1, as amended. For a bin entry with \<open>fd = 0xC000\<close>, where \<open>0xC000\<close> is not the sentinel
  \<open>H = bin_entry.address - 2P\<close>, and a chunk parsed at \<open>0xC000\<close> whose \<open>fd\<close> is the
  sentinel \<open>H\<close>, the parsed bin has exactly one chunk, the one parsed at \<open>0xC000\<close>, after
  one read.
\<close>

theorem one_chunk_bin:
  assumes "bin_entry.fd be = 0xC000"
    and "bin_entry.address be - bin_parser.pointer_size self * 2 \<noteq> 0xC000"
    and "parse_from_address (malloc_chunk_parser self) 0xC000 = Inr c"
    and "malloc_chunk.fd c = bin_entry.address be - bin_parser.pointer_size self * 2"
  shows "parse_from_bin_entry self be reads = Some (Inr (BinFactory_create be [c]), reads @ [0xC000])
         \<and> Bin_chunks (BinFactory_create be [c]) = [c]
         \<and> Bin_len (BinFactory_create be [c]) = 1"
proof -
  let ?H = "bin_entry.address be - bin_parser.pointer_size self * 2"
  have "parse_from_bin_entry_loop self [c] [?H, 0xC000] ?H (reads @ [0xC000])
        = Some (Inr ([c], [?H, 0xC000]), reads @ [0xC000])"
    by (subst parse_from_bin_entry_loop.simps) simp
  then have "parse_from_bin_entry_loop self [] [?H] 0xC000 reads
        = Some (Inr ([c], [?H, 0xC000]), reads @ [0xC000])"
    using assms(2,3,4) by (subst parse_from_bin_entry_loop.simps) simp
  then have "bin_walk self be reads = Some (Inr ([c], [?H, 0xC000]), reads @ [0xC000])"
    using assms(1) by (simp add: bin_walk_def)
  then show ?thesis
    by (simp add: parse_from_bin_entry_walk Bin_chunks_def Bin_len_def malloc_chunks_create)
qed

text \<open>
  C1 as stated has the \<open>fd\<close> of the chunk equal to \<open>bin_entry.address\<close>, which is not in
  the visited list: the walk goes on to parse a chunk at \<open>bin_entry.address\<close>, and where
  that read succeeds the bin has a second chunk.
\<close>

theorem one_chunk_bin_counterexample:
  "bin_entry.fd one_chunk_entry = 0xC000
   \<and> parse_from_address (malloc_chunk_parser (parser_of fd_to_cell_table)) 0xC000
       = Inr (chunk_at 0xC000 0x7010)
   \<and> malloc_chunk.fd (chunk_at 0xC000 0x7010) = bin_entry.address one_chunk_entry
   \<and> parse_from_bin_entry (parser_of fd_to_cell_table) one_chunk_entry []
       = Some (Inr (BinFactory_create one_chunk_entry
                      [chunk_at 0xC000 0x7010, chunk_at 0x7010 0x7010]),
               [0xC000, 0x7010])
   \<and> Bin_len (BinFactory_create one_chunk_entry [chunk_at 0xC000 0x7010, chunk_at 0x7010 0x7010]) = 2"
  by (simp add: parse_from_bin_entry_def parse_from_bin_entry_loop.simps fixture_defs
        fd_to_cell_table_def Bin_len_def malloc_chunks_create)

theorem one_chunk_bin_witness:
  "bin_entry.fd one_chunk_entry = 0xC000
   \<and> bin_entry.address one_chunk_entry
       - bin_parser.pointer_size (parser_of fd_to_sentinel_table) * 2 \<noteq> 0xC000
   \<and> parse_from_address (malloc_chunk_parser (parser_of fd_to_sentinel_table)) 0xC000
       = Inr (chunk_at 0xC000 0x7000)
   \<and> malloc_chunk.fd (chunk_at 0xC000 0x7000)
       = bin_entry.address one_chunk_entry
         - bin_parser.pointer_size (parser_of fd_to_sentinel_table) * 2
   \<and> parse_from_bin_entry (parser_of fd_to_sentinel_table) one_chunk_entry []
       = Some (Inr (BinFactory_create one_chunk_entry [chunk_at 0xC000 0x7000]), [0xC000])
   \<and> Bin_chunks (BinFactory_create one_chunk_entry [chunk_at 0xC000 0x7000])
       = [chunk_at 0xC000 0x7000]
   \<and> Bin_len (BinFactory_create one_chunk_entry [chunk_at 0xC000 0x7000]) = 1"
  using one_chunk_bin [of one_chunk_entry "parser_of fd_to_sentinel_table"
                          "chunk_at 0xC000 0x7000" "[]"]
  by (simp add: fixture_defs fd_to_sentinel_table_def)

section \<open>Termination of the walk\<close>

text \<open>
  C2. A memory image has finitely many addresses that can be read: they are unsigned
  integers of the pointer size (lemma \<open>address_space_finite\<close>). On such an image the walk
  of any bin entry ends, with a bin or with an exception that is not \<open>OSError\<close>. The
  addresses it asked the parser for are pairwise distinct and none is the sentinel, so the
  number of parse attempts is at most (in fact equal to) the number of distinct addresses
  among them.
\<close>

theorem bin_walk_terminates:
  assumes "finite {a. \<exists>c. parse_from_address (malloc_chunk_parser self) a = Inr c}"
  shows "\<exists>result rd. parse_from_bin_entry self be reads = Some (result, reads @ rd)
           \<and> distinct rd
           \<and> bin_entry.address be - bin_parser.pointer_size self * 2 \<notin> set rd
           \<and> length rd \<le> card (set rd)"
proof -
  from loop_terminates [OF assms] obtain y where y: "bin_walk self be reads = Some y"
    unfolding bin_walk_def by blast
  from loop_result [OF y [unfolded bin_walk_def]] obtain rd where
    rd: "snd y = reads @ rd" "distinct rd"
      "set rd \<inter> set [bin_entry.address be - bin_parser.pointer_size self * 2] = {}"
    by blast
  have "parse_from_bin_entry self be reads
        = Some (map_sum id (\<lambda>(cs, as). BinFactory_create be cs) (fst y), reads @ rd)"
    using y rd(1) by (cases y) (simp add: parse_from_bin_entry_walk)
  moreover have "bin_entry.address be - bin_parser.pointer_size self * 2 \<notin> set rd"
    using rd(3) by simp
  moreover have "length rd \<le> card (set rd)"
    using rd(2) by (simp add: distinct_card)
  ultimately show ?thesis using rd(2) by blast
qed

theorem bin_walk_terminates_witness:
  "finite {a. \<exists>c. parse_from_address (malloc_chunk_parser (parser_of two_chunks_table)) a = Inr c}
   \<and> (\<exists>result rd. parse_from_bin_entry (parser_of two_chunks_table) one_chunk_entry []
                     = Some (result, [] @ rd)
         \<and> distinct rd
         \<and> bin_entry.address one_chunk_entry
             - bin_parser.pointer_size (parser_of two_chunks_table) * 2 \<notin> set rd
         \<and> length rd \<le> card (set rd))"
  using bin_walk_terminates [OF memory_image_finite, of two_chunks_table one_chunk_entry "[]"]
    memory_image_finite [of two_chunks_table]
  by simp

section \<open>Read failures\<close>

text \<open>
  C3. Let \<open>as\<close> be the first \<open>k\<close> addresses of the walk, pairwise distinct and different
  from the sentinel, and \<open>cs\<close> the \<open>k - 1\<close> chunks parsed at all but the last of them,
  each address after the first being the \<open>fd\<close> of the chunk before. If the parser raises
  \<open>OSError\<close> at the last address then the walk does not raise: it returns the bin whose
  chunk list is \<open>cs\<close>, in that order.
\<close>

theorem read_failure_returns_prefix:
  assumes "length as = Suc (length cs)"
    and "as ! 0 = bin_entry.fd be"
    and "\<forall>i<length cs. parse_from_address (malloc_chunk_parser self) (as ! i) = Inr (cs ! i)
                          \<and> as ! Suc i = malloc_chunk.fd (cs ! i)"
    and "distinct ((bin_entry.address be - bin_parser.pointer_size self * 2) # as)"
    and "parse_from_address (malloc_chunk_parser self) (last as) = Inl OSError"
  shows "parse_from_bin_entry self be reads = Some (Inr (BinFactory_create be cs), reads @ as)
         \<and> Bin_chunks (BinFactory_create be cs) = cs"
proof -
  have "distinct ([bin_entry.address be - bin_parser.pointer_size self * 2] @ as)"
    using assms(4) by simp
  from loop_prefix_then_read_error [OF assms(1) assms(3) this assms(5), of "[]" reads]
  have "bin_walk self be reads
        = Some (Inr (cs, [bin_entry.address be - bin_parser.pointer_size self * 2] @ as), reads @ as)"
    using assms(2) by (simp add: bin_walk_def)
  then show ?thesis
    by (simp add: parse_from_bin_entry_walk Bin_chunks_def malloc_chunks_create)
qed

theorem read_failure_returns_prefix_witness:
  "length [0xC000, 0xD000, 0xE000 :: int] = Suc (length [chunk_at 0xC000 0xD000, chunk_at 0xD000 0xE000])
   \<and> [0xC000, 0xD000, 0xE000] ! 0 = bin_entry.fd one_chunk_entry
   \<and> parse_from_address (malloc_chunk_parser (parser_of broken_chain_table)) 0xC000
       = Inr (chunk_at 0xC000 0xD000)
   \<and> malloc_chunk.fd (chunk_at 0xC000 0xD000) = 0xD000
   \<and> parse_from_address (malloc_chunk_parser (parser_of broken_chain_table)) 0xD000
       = Inr (chunk_at 0xD000 0xE000)
   \<and> malloc_chunk.fd (chunk_at 0xD000 0xE000) = 0xE000
   \<and> distinct ((bin_entry.address one_chunk_entry
                  - bin_parser.pointer_size (parser_of broken_chain_table) * 2)
                 # [0xC000, 0xD000, 0xE000])
   \<and> parse_from_address (malloc_chunk_parser (parser_of broken_chain_table))
        (last [0xC000, 0xD000, 0xE000]) = Inl OSError
   \<and> parse_from_bin_entry (parser_of broken_chain_table) one_chunk_entry []
       = Some (Inr (BinFactory_create one_chunk_entry
                      [chunk_at 0xC000 0xD000, chunk_at 0xD000 0xE000]),
               [0xC000, 0xD000, 0xE000])
   \<and> Bin_chunks (BinFactory_create one_chunk_entry [chunk_at 0xC000 0xD000, chunk_at 0xD000 0xE000])
       = [chunk_at 0xC000 0xD000, chunk_at 0xD000 0xE000]"
  using read_failure_returns_prefix [of "[0xC000, 0xD000, 0xE000]"
          "[chunk_at 0xC000 0xD000, chunk_at 0xD000 0xE000]" one_chunk_entry
          "parser_of broken_chain_table" "[]"]
  by (simp add: fixture_defs broken_chain_table_def All_less_Suc numeral_2_eq_2)

section \<open>The empty bin\<close>

text \<open>
  C4. A bin entry whose \<open>fd\<close> is the sentinel \<open>bin_entry.address - 2P\<close> gives a bin with
  an empty chunk list, of length zero, and the walk asks the chunk parser for no read:
  the list of reads comes back as it went in.
\<close>

theorem empty_bin_has_no_chunks:
  assumes "bin_entry.fd be = bin_entry.address be - 2 * bin_parser.pointer_size self"
  shows "parse_from_bin_entry self be reads = Some (Inr (BinFactory_create be []), reads)
         \<and> Bin_chunks (BinFactory_create be []) = []
         \<and> Bin_len (BinFactory_create be []) = 0"
proof -
  have "parse_from_bin_entry_loop self []
          [bin_entry.address be - bin_parser.pointer_size self * 2] (bin_entry.fd be) reads
        = Some (Inr ([], [bin_entry.address be - bin_parser.pointer_size self * 2]), reads)"
    using assms by (subst parse_from_bin_entry_loop.simps) (simp add: mult.commute)
  then have "parse_from_bin_entry self be reads = Some (Inr (BinFactory_create be []), reads)"
    by (simp add: parse_from_bin_entry_def)
  moreover have "Bin_chunks (BinFactory_create be []) = []"
    by (simp add: Bin_chunks_def BinFactory_create_def Bin_init_default_def Bin_init_def)
  moreover have "Bin_len (BinFactory_create be []) = 0"
    by (simp add: Bin_len_def BinFactory_create_def Bin_init_default_def Bin_init_def)
  ultimately show ?thesis by simp
qed

theorem empty_bin_has_no_chunks_witness:
  "bin_entry.fd empty_entry
     = bin_entry.address empty_entry - 2 * bin_parser.pointer_size (parser_of [(0x7000, chunk_at 0x7000 0x7000)])
   \<and> parse_from_bin_entry (parser_of [(0x7000, chunk_at 0x7000 0x7000)]) empty_entry []
       = Some (Inr (BinFactory_create empty_entry []), [])
   \<and> Bin_chunks (BinFactory_create empty_entry []) = []
   \<and> Bin_len (BinFactory_create empty_entry []) = 0"
  using empty_bin_has_no_chunks [of empty_entry "parser_of [(0x7000, chunk_at 0x7000 0x7000)]" "[]"]
  by (simp add: empty_entry_def parser_of_def BinParser_init_def)

section \<open>The walk follows the raw pointers\<close>

text \<open>
  C7. In a bin returned by the walk, \<open>safe_link\<close> is false and the addresses read are the
  \<open>fd\<close> of the bin entry and then the raw \<open>fd\<close> of each chunk of the bin in turn. The
  walk uses nothing else of a chunk: on a memory image that agrees with the given one on
  the failing reads and on the raw \<open>fd\<close> of every chunk, whatever its \<open>fd_demangled\<close>
  values, the walk makes the same reads. The unsorted bin is parsed by this walk, and so is
  each small bin and each large bin: every bin of the returned lists is a bin returned by
  the walk for the entry at its position, with \<open>safe_link\<close> false.
\<close>

theorem bin_walk_follows_raw_fd:
  "(parse_from_bin_entry self be reads = Some (Inr b, reads') \<longrightarrow>
      \<not> safe_link b
      \<and> (\<exists>rd. reads' = reads @ rd
             \<and> rd = take (length rd) (bin_entry.fd be # map malloc_chunk.fd (Bin_chunks b))
             \<and> length (Bin_chunks b) \<le> length rd))
   \<and> (bin_parser.pointer_size other = bin_parser.pointer_size self
       \<and> (\<forall>a. rel_sum (=) (\<lambda>c1 c2. malloc_chunk.fd c1 = malloc_chunk.fd c2)
                 (parse_from_address (malloc_chunk_parser self) a)
                 (parse_from_address (malloc_chunk_parser other) a)) \<longrightarrow>
      map_option snd (parse_from_bin_entry other be reads)
      = map_option snd (parse_from_bin_entry self be reads))
   \<and> parse_unsorted_bin_from_malloc_state self arena reads
       = parse_from_bin_entry self (unsorted_bin arena) reads
   \<and> (parse_small_bins_from_malloc_state self arena reads = Some (Inr small, reads_small) \<longrightarrow>
      list_all2 (\<lambda>entry b. \<not> safe_link b
                   \<and> (\<exists>r r'. parse_from_bin_entry self entry r = Some (Inr b, r')))
        (small_bins arena) small)
   \<and> (parse_large_bins_from_malloc_state self arena reads = Some (Inr large, reads_large) \<longrightarrow>
      list_all2 (\<lambda>entry b. \<not> safe_link b
                   \<and> (\<exists>r r'. parse_from_bin_entry self entry r = Some (Inr b, r')))
        (large_bins arena) large)"
proof (intro conjI impI)
  assume run: "parse_from_bin_entry self be reads = Some (Inr b, reads')"
  from parse_from_bin_entry_Inr [OF run]
  obtain cs ads where y: "bin_walk self be reads = Some (Inr (cs, ads), reads')"
    and b: "b = BinFactory_create be cs"
    by blast
  from loop_result [OF y [unfolded bin_walk_def]] obtain rd cs' where
    rd: "reads' = reads @ rd"
      "length cs' \<le> length rd"
      "rd = take (length rd) (bin_entry.fd be # map malloc_chunk.fd cs')"
      "cs = [] @ cs'"
    by auto
  have cs: "Bin_chunks b = cs'" using b rd(4) by (simp add: Bin_chunks_def malloc_chunks_create)
  show "\<not> safe_link b"
    using b by (simp add: BinFactory_create_def Bin_init_default_def Bin_init_def)
  show "\<exists>rd. reads' = reads @ rd
           \<and> rd = take (length rd) (bin_entry.fd be # map malloc_chunk.fd (Bin_chunks b))
           \<and> length (Bin_chunks b) \<le> length rd"
    using rd cs by blast
next
  assume "bin_parser.pointer_size other = bin_parser.pointer_size self
       \<and> (\<forall>a. rel_sum (=) (\<lambda>c1 c2. malloc_chunk.fd c1 = malloc_chunk.fd c2)
                 (parse_from_address (malloc_chunk_parser self) a)
                 (parse_from_address (malloc_chunk_parser other) a))"
  then show "map_option snd (parse_from_bin_entry other be reads)
             = map_option snd (parse_from_bin_entry self be reads)"
    using walk_reads_related by blast
next
  show "parse_unsorted_bin_from_malloc_state self arena reads
        = parse_from_bin_entry self (unsorted_bin arena) reads"
    by (simp add: parse_unsorted_bin_from_malloc_state_def)
next
  assume "parse_small_bins_from_malloc_state self arena reads = Some (Inr small, reads_small)"
  then show "list_all2 (\<lambda>entry b. \<not> safe_link b
                   \<and> (\<exists>r r'. parse_from_bin_entry self entry r = Some (Inr b, r')))
               (small_bins arena) small"
    using parse_bin_entries_pointwise [of self "small_bins arena" "[]" reads small reads_small]
    by (simp add: parse_small_bins_from_malloc_state_def)
next
  assume "parse_large_bins_from_malloc_state self arena reads = Some (Inr large, reads_large)"
  then show "list_all2 (\<lambda>entry b. \<not> safe_link b
                   \<and> (\<exists>r r'. parse_from_bin_entry self entry r = Some (Inr b, r')))
               (large_bins arena) large"
    using parse_bin_entries_pointwise [of self "large_bins arena" "[]" reads large reads_large]
    by (simp add: parse_large_bins_from_malloc_state_def)
qed

theorem bin_walk_follows_raw_fd_witness:
  "parse_from_bin_entry (parser_of two_chunks_table) one_chunk_entry []
     = Some (Inr (BinFactory_create one_chunk_entry [chunk_at 0xC000 0xD000, chunk_at 0xD000 0x7000]),
             [0xC000, 0xD000])
   \<and> \<not> safe_link (BinFactory_create one_chunk_entry [chunk_at 0xC000 0xD000, chunk_at 0xD000 0x7000])
   \<and> [0xC000, 0xD000]
       = take 2 (bin_entry.fd one_chunk_entry
                 # map malloc_chunk.fd (Bin_chunks (BinFactory_create one_chunk_entry
                      [chunk_at 0xC000 0xD000, chunk_at 0xD000 0x7000])))
   \<and> map fd_demangled (Bin_chunks (BinFactory_create one_chunk_entry
                      [chunk_at 0xC000 0xD000, chunk_at 0xD000 0x7000])) = [0x41, 0x41]
   \<and> bin_parser.pointer_size (parser_of remangled_table)
       = bin_parser.pointer_size (parser_of two_chunks_table)
   \<and> (\<forall>a. rel_sum (=) (\<lambda>c1 c2. malloc_chunk.fd c1 = malloc_chunk.fd c2)
         (parse_from_address (malloc_chunk_parser (parser_of two_chunks_table)) a)
         (parse_from_address (malloc_chunk_parser (parser_of remangled_table)) a))
   \<and> map_option snd (parse_from_bin_entry (parser_of remangled_table) one_chunk_entry [])
       = Some [0xC000, 0xD000]
   \<and> parse_unsorted_bin_from_malloc_state (parser_of two_chunks_table) arena_with_bins []
       = parse_from_bin_entry (parser_of two_chunks_table) (unsorted_bin arena_with_bins) []
   \<and> parse_small_bins_from_malloc_state (parser_of two_chunks_table) arena_with_bins []
       = Some (Inr [BinFactory_create empty_entry [],
                    BinFactory_create one_chunk_entry
                      [chunk_at 0xC000 0xD000, chunk_at 0xD000 0x7000]],
               [0xC000, 0xD000])
   \<and> list_all2 (\<lambda>entry b. \<not> safe_link b
          \<and> (\<exists>r r'. parse_from_bin_entry (parser_of two_chunks_table) entry r = Some (Inr b, r')))
        (small_bins arena_with_bins)
        [BinFactory_create empty_entry [],
         BinFactory_create one_chunk_entry [chunk_at 0xC000 0xD000, chunk_at 0xD000 0x7000]]
   \<and> parse_large_bins_from_malloc_state (parser_of two_chunks_table) arena_with_bins []
       = Some (Inr [BinFactory_create one_chunk_entry
                      [chunk_at 0xC000 0xD000, chunk_at 0xD000 0x7000]],
               [0xC000, 0xD000])
   \<and> list_all2 (\<lambda>entry b. \<not> safe_link b
          \<and> (\<exists>r r'. parse_from_bin_entry (parser_of two_chunks_table) entry r = Some (Inr b, r')))
        (large_bins arena_with_bins)
        [BinFactory_create one_chunk_entry [chunk_at 0xC000 0xD000, chunk_at 0xD000 0x7000]]"
proof -
  let ?two = "BinFactory_create one_chunk_entry [chunk_at 0xC000 0xD000, chunk_at 0xD000 0x7000]"
  have size: "bin_parser.pointer_size (parser_of remangled_table)
              = bin_parser.pointer_size (parser_of two_chunks_table)"
    by (simp add: parser_of_def BinParser_init_def)
  have small: "parse_small_bins_from_malloc_state (parser_of two_chunks_table) arena_with_bins []
               = Some (Inr [BinFactory_create empty_entry [], ?two], [0xC000, 0xD000])"
    by (simp add: parse_small_bins_from_malloc_state_def arena_with_bins_def empty_walk
          two_chunks_walk_from)
  have large: "parse_large_bins_from_malloc_state (parser_of two_chunks_table) arena_with_bins []
               = Some (Inr [?two], [0xC000, 0xD000])"
    by (simp add: parse_large_bins_from_malloc_state_def arena_with_bins_def two_chunks_walk_from)
  note t = bin_walk_follows_raw_fd [where self = "parser_of two_chunks_table"
      and be = one_chunk_entry and reads = "[]" and b = ?two and reads' = "[0xC000, 0xD000]"
      and other = "parser_of remangled_table" and arena = arena_with_bins
      and small = "[BinFactory_create empty_entry [], ?two]" and reads_small = "[0xC000, 0xD000]"
      and large = "[?two]" and reads_large = "[0xC000, 0xD000]"]
  have a: "\<not> safe_link ?two" using t two_chunks_walk by blast
  have b: "[0xC000, 0xD000]
       = take 2 (bin_entry.fd one_chunk_entry # map malloc_chunk.fd (Bin_chunks ?two))"
    by (simp add: Bin_chunks_def malloc_chunks_create chunk_at_def one_chunk_entry_def)
  have c: "map fd_demangled (Bin_chunks ?two) = [0x41, 0x41]"
    by (simp add: Bin_chunks_def malloc_chunks_create chunk_at_def)
  have d: "map_option snd (parse_from_bin_entry (parser_of remangled_table) one_chunk_entry [])
           = Some [0xC000, 0xD000]"
  proof -
    from t size remangled_agrees
    have "map_option snd (parse_from_bin_entry (parser_of remangled_table) one_chunk_entry [])
          = map_option snd (parse_from_bin_entry (parser_of two_chunks_table) one_chunk_entry [])"
      by blast
    then show ?thesis by (simp add: two_chunks_walk)
  qed
  have e: "parse_unsorted_bin_from_malloc_state (parser_of two_chunks_table) arena_with_bins []
       = parse_from_bin_entry (parser_of two_chunks_table) (unsorted_bin arena_with_bins) []"
    using t by blast
  have f: "list_all2 (\<lambda>entry b. \<not> safe_link b
          \<and> (\<exists>r r'. parse_from_bin_entry (parser_of two_chunks_table) entry r = Some (Inr b, r')))
        (small_bins arena_with_bins) [BinFactory_create empty_entry [], ?two]"
    using t small by blast
  have g: "list_all2 (\<lambda>entry b. \<not> safe_link b
          \<and> (\<exists>r r'. parse_from_bin_entry (parser_of two_chunks_table) entry r = Some (Inr b, r')))
        (large_bins arena_with_bins) [?two]"
    using t large by blast
  from two_chunks_walk a b c size remangled_agrees d e small f large g show ?thesis
    by (intro conjI)
qed

section \<open>No address is parsed twice\<close>

text \<open>
  C9. In a returned bin, the chunks were parsed from the first addresses read by the walk,
  one address for each chunk in order; these addresses are pairwise distinct and none is
  the sentinel \<open>bin_entry.address - 2P\<close>.
\<close>

theorem parsed_addresses_distinct:
  assumes "parse_from_bin_entry self be reads = Some (Inr b, reads')"
  shows "\<exists>as. as = take (length (Bin_chunks b)) (drop (length reads) reads')
           \<and> length as = length (Bin_chunks b)
           \<and> map (parse_from_address (malloc_chunk_parser self)) as = map Inr (Bin_chunks b)
           \<and> distinct as
           \<and> bin_entry.address be - bin_parser.pointer_size self * 2 \<notin> set as"
proof -
  from parse_from_bin_entry_Inr [OF assms]
  obtain cs ads where y: "bin_walk self be reads = Some (Inr (cs, ads), reads')"
    and b: "b = BinFactory_create be cs"
    by blast
  from loop_result [OF y [unfolded bin_walk_def]] obtain rd cs' where
    rd: "reads' = reads @ rd" "distinct rd"
      "set rd \<inter> set [bin_entry.address be - bin_parser.pointer_size self * 2] = {}"
      "length cs' \<le> length rd"
      "map (parse_from_address (malloc_chunk_parser self)) (take (length cs') rd) = map Inr cs'"
      "cs = [] @ cs'"
    by auto
  have cs: "Bin_chunks b = cs'" using b rd(6) by (simp add: Bin_chunks_def malloc_chunks_create)
  let ?as = "take (length cs') rd"
  have "?as = take (length (Bin_chunks b)) (drop (length reads) reads')"
    using cs rd(1) by simp
  moreover have "length ?as = length (Bin_chunks b)" using cs rd(4) by simp
  moreover have "map (parse_from_address (malloc_chunk_parser self)) ?as = map Inr (Bin_chunks b)"
    using cs rd(5) by simp
  moreover have "distinct ?as" using rd(2) by simp
  moreover have "bin_entry.address be - bin_parser.pointer_size self * 2 \<notin> set ?as"
    using rd(3) by (auto dest: in_set_takeD)
  ultimately show ?thesis by blast
qed

theorem parsed_addresses_distinct_witness:
  "parse_from_bin_entry (parser_of two_chunks_table) one_chunk_entry []
     = Some (Inr (BinFactory_create one_chunk_entry [chunk_at 0xC000 0xD000, chunk_at 0xD000 0x7000]),
             [0xC000, 0xD000])
   \<and> (\<exists>as. as = take (length (Bin_chunks (BinFactory_create one_chunk_entry
                                 [chunk_at 0xC000 0xD000, chunk_at 0xD000 0x7000])))
                   (drop (length ([] :: int list)) [0xC000, 0xD000])
         \<and> length as = length (Bin_chunks (BinFactory_create one_chunk_entry
                                 [chunk_at 0xC000 0xD000, chunk_at 0xD000 0x7000]))
         \<and> map (parse_from_address (malloc_chunk_parser (parser_of two_chunks_table))) as
             = map Inr (Bin_chunks (BinFactory_create one_chunk_entry
                                 [chunk_at 0xC000 0xD000, chunk_at 0xD000 0x7000]))
         \<and> distinct as
         \<and> bin_entry.address one_chunk_entry
             - bin_parser.pointer_size (parser_of two_chunks_table) * 2 \<notin> set as)"
  using parsed_addresses_distinct [OF two_chunks_walk] two_chunks_walk
  by blast

section \<open>Properties of the explorer\<close>

lemmas explorer_defs = HeapExplorer_init_def are_tcaches_enabled_def heap_def malloc_state_def
  all_arenas_malloc_states_def arenas_count_def getitem_def is_libc_version_lower_than_def
  heap_explorer_partial.defs heap_explorer.defs

lemmas explorer_fixture_defs = informer_of_def heap_with_first_size_def no_tcaches_def
  explorer_of_def arena_at_def chunk_at_def

lemma self_ring_states:
  "parse_all_from_main_malloc_state_address self_ring 0x7F0000 = Inr [arena_at 0x7F0000 0x7F0000]"
  by (simp add: parse_all_from_main_malloc_state_address_def self_ring_def arena_at_def)

lemma two_arena_ring_states:
  "parse_all_from_main_malloc_state_address two_arena_ring 0x7F0000
   = Inr [arena_at 0x7F0000 0x7E0000, arena_at 0x7E0000 0x7F0000]"
  by (simp add: parse_all_from_main_malloc_state_address_def two_arena_ring_def arena_at_def)

lemma HeapExplorer_init_fields:
  assumes "HeapExplorer_init pi msp hp etp calls_init = (Inr he, calls_built)"
  shows "malloc_state_parser he = msp"
    and "heap_explorer_partial.main_arena_address he = process_informer.main_arena_address pi"
    and "tcache_parser he
         = (if tcaches_enabled he then etp else DisabledTcacheParser_parse_all_from_malloc_state)"
    and "is_libc_version_lower_than pi [2, 26] \<Longrightarrow> \<not> tcaches_enabled he \<and> calls_built = calls_init"
  using assms
  by (auto simp: HeapExplorer_init_def are_tcaches_enabled_def heap_explorer_partial.defs
        heap_explorer.defs Let_def split: prod.splits sum.splits if_splits)

lemma HeapExplorer_init_old_libc:
  assumes "is_libc_version_lower_than pi [2, 26]"
  shows "\<exists>he. HeapExplorer_init pi msp hp etp calls_init = (Inr he, calls_init) \<and> \<not> tcaches_enabled he"
  using assms
  by (simp add: HeapExplorer_init_def are_tcaches_enabled_def heap_explorer_partial.defs
        heap_explorer.defs)

lemma all_arenas_tcaches_loop_error:
  assumes "\<forall>ms. tcache_parser he ms \<noteq> Inl e"
  shows "fst (all_arenas_tcaches_loop he mss acc calls) \<noteq> Inl e"
  using assms
  by (induction mss arbitrary: acc calls) (auto split: sum.splits)

lemma getitem_error: "getitem xs i = Inl e \<Longrightarrow> e = IndexError"
  by (auto simp: getitem_def split: if_splits)

lemma old_libc_explorer_init:
  "HeapExplorer_init (informer_of [2, 25]) (parse_all_from_main_malloc_state_address two_arena_ring)
     (heap_with_first_size 0x250) no_tcaches [] = (Inr old_libc_explorer, [])"
  by (simp add: explorer_defs explorer_fixture_defs old_libc_explorer_def)

lemma new_libc_explorer_init:
  "HeapExplorer_init (informer_of [2, 31]) (parse_all_from_main_malloc_state_address two_arena_ring)
     (heap_with_first_size 0x250) no_tcaches []
   = (Inr new_libc_explorer,
      [ParseAllMallocStates 0x7F0000, ParseHeap (arena_at 0x7F0000 0x7E0000)])"
  by (simp add: explorer_defs explorer_fixture_defs new_libc_explorer_def two_arena_ring_states)

section \<open>Detection of the tcache\<close>

text \<open>
  C5, as amended. For a process whose libc version is not lower than 2.26 and whose main
  heap (the heap of the first malloc state of the ring) is parsed and has a first chunk,
  the constructor succeeds after reading the malloc states and the main heap, and
  \<open>tcaches_enabled\<close> is true if and only if the size of that chunk is \<open>P * 64 + 0x50\<close>,
  where \<open>P\<close> is the pointer size.
\<close>

theorem tcaches_enabled_iff_first_chunk_size:
  assumes "\<not> is_libc_version_lower_than pi [2, 26]"
    and "msp (process_informer.main_arena_address pi) = Inr mss"
    and "getitem mss 0 = Inr ms"
    and "hp ms = Inr h"
    and "getitem (heap.chunks h) 0 = Inr first"
  shows "\<exists>he. HeapExplorer_init pi msp hp etp calls
                = (Inr he, calls @ [ParseAllMallocStates (process_informer.main_arena_address pi),
                                    ParseHeap ms])
           \<and> tcaches_enabled he
               = (malloc_chunk.size first = process_informer.pointer_size pi * 64 + 0x50)"
proof -
  let ?self = "\<lparr>process_informer = pi,
                 heap_explorer_partial.main_arena_address = process_informer.main_arena_address pi,
                 heap_explorer_partial.pointer_size = process_informer.pointer_size pi,
                 malloc_state_parser = msp, heap_parser = hp\<rparr>"
  let ?calls = "calls @ [ParseAllMallocStates (process_informer.main_arena_address pi), ParseHeap ms]"
  have "malloc_state ?self 0 calls
        = (Inr ms, calls @ [ParseAllMallocStates (process_informer.main_arena_address pi)])"
    using assms(2,3) by (simp add: malloc_state_def all_arenas_malloc_states_def)
  then have "heap ?self 0 calls = (Inr h, ?calls)"
    using assms(4) by (simp add: heap_def)
  then have "are_tcaches_enabled ?self calls
             = (Inr (process_informer.pointer_size pi * 64 + 0x50 = malloc_chunk.size first), ?calls)"
    using assms(1,5) by (simp add: are_tcaches_enabled_def)
  then show ?thesis
    by (auto simp: HeapExplorer_init_def heap_explorer_partial.defs heap_explorer.defs)
qed

text \<open>
  C5 as stated has the size \<open>2P * 64 + 0x50\<close>. On a 64-bit process with libc 2.31 a first
  chunk of size \<open>0x250 = 8 * 64 + 0x50\<close> enables the tcaches, and a first chunk of size
  \<open>0x450 = 2 * 8 * 64 + 0x50\<close> does not.
\<close>

theorem tcaches_enabled_iff_first_chunk_size_counterexample:
  "\<not> is_libc_version_lower_than (informer_of [2, 31]) [2, 26]
   \<and> process_informer.pointer_size (informer_of [2, 31]) = 8
   \<and> map_sum id tcaches_enabled
        (fst (HeapExplorer_init (informer_of [2, 31])
                (parse_all_from_main_malloc_state_address self_ring)
                (heap_with_first_size 0x250) no_tcaches [])) = Inr True
   \<and> (0x250 :: int) \<noteq> 2 * 8 * 64 + 0x50
   \<and> map_sum id tcaches_enabled
        (fst (HeapExplorer_init (informer_of [2, 31])
                (parse_all_from_main_malloc_state_address self_ring)
                (heap_with_first_size 0x450) no_tcaches [])) = Inr False
   \<and> (0x450 :: int) = 2 * 8 * 64 + 0x50"
  by (simp add: explorer_defs explorer_fixture_defs self_ring_states)

theorem tcaches_enabled_iff_first_chunk_size_witness:
  "\<not> is_libc_version_lower_than (informer_of [2, 31]) [2, 26]
   \<and> parse_all_from_main_malloc_state_address self_ring
        (process_informer.main_arena_address (informer_of [2, 31]))
       = Inr [arena_at 0x7F0000 0x7F0000]
   \<and> getitem [arena_at 0x7F0000 0x7F0000] 0 = Inr (arena_at 0x7F0000 0x7F0000)
   \<and> heap_with_first_size 0x250 (arena_at 0x7F0000 0x7F0000)
       = Inr \<lparr>heap.chunks = [(chunk_at 0x1000 0)\<lparr>size := 0x250\<rparr>, chunk_at 0x2000 0]\<rparr>
   \<and> getitem (heap.chunks \<lparr>heap.chunks = [(chunk_at 0x1000 0)\<lparr>size := 0x250\<rparr>, chunk_at 0x2000 0]\<rparr>) 0
       = Inr ((chunk_at 0x1000 0)\<lparr>size := 0x250\<rparr>)
   \<and> (\<exists>he. HeapExplorer_init (informer_of [2, 31])
               (parse_all_from_main_malloc_state_address self_ring)
               (heap_with_first_size 0x250) no_tcaches []
              = (Inr he, [] @ [ParseAllMallocStates
                                 (process_informer.main_arena_address (informer_of [2, 31])),
                               ParseHeap (arena_at 0x7F0000 0x7F0000)])
         \<and> tcaches_enabled he
             = (malloc_chunk.size ((chunk_at 0x1000 0)\<lparr>size := 0x250\<rparr>)
                = process_informer.pointer_size (informer_of [2, 31]) * 64 + 0x50))"
proof -
  have v: "\<not> is_libc_version_lower_than (informer_of [2, 31]) [2, 26]"
    by (simp add: is_libc_version_lower_than_def informer_of_def)
  have r: "parse_all_from_main_malloc_state_address self_ring
             (process_informer.main_arena_address (informer_of [2, 31]))
           = Inr [arena_at 0x7F0000 0x7F0000]"
    by (simp add: self_ring_states informer_of_def)
  have g: "getitem [arena_at 0x7F0000 0x7F0000] 0 = Inr (arena_at 0x7F0000 0x7F0000)"
    by (simp add: getitem_def)
  have h: "heap_with_first_size 0x250 (arena_at 0x7F0000 0x7F0000)
           = Inr \<lparr>heap.chunks = [(chunk_at 0x1000 0)\<lparr>size := 0x250\<rparr>, chunk_at 0x2000 0]\<rparr>"
    by (simp add: heap_with_first_size_def)
  have f: "getitem (heap.chunks \<lparr>heap.chunks = [(chunk_at 0x1000 0)\<lparr>size := 0x250\<rparr>,
                                                  chunk_at 0x2000 0]\<rparr>) 0
           = Inr ((chunk_at 0x1000 0)\<lparr>size := 0x250\<rparr>)"
    by (simp add: getitem_def)
  from v r g h f
    tcaches_enabled_iff_first_chunk_size
      [where pi = "informer_of [2, 31]"
         and msp = "parse_all_from_main_malloc_state_address self_ring"
         and hp = "heap_with_first_size 0x250" and etp = no_tcaches and calls = "[]",
       OF v r g h f]
  show ?thesis by blast
qed

section \<open>NoTcacheError\<close>

text \<open>
  C6. Let the malloc state parser and the enabled tcache parser never raise
  \<open>NoTcacheError\<close>. For a libc version lower than 2.26 the constructor succeeds without
  calling a parser and \<open>tcaches_enabled\<close> is false. On a constructed explorer,
  \<open>tcaches\<close> raises \<open>NoTcacheError\<close> if and only if \<open>tcaches_enabled\<close> is false, and so
  does \<open>all_arenas_tcaches\<close>; when they raise it, no parser has been called: the list of
  calls is unchanged.
\<close>

theorem no_tcache_error_iff_disabled:
  assumes "\<forall>a. msp a \<noteq> Inl NoTcacheError"
    and "\<forall>ms. etp ms \<noteq> Inl NoTcacheError"
  shows "(is_libc_version_lower_than pi [2, 26] \<longrightarrow>
            (\<exists>he. HeapExplorer_init pi msp hp etp calls_init = (Inr he, calls_init)
                   \<and> \<not> tcaches_enabled he))
         \<and> (HeapExplorer_init pi msp hp etp calls_init = (Inr he, calls_built) \<longrightarrow>
              (fst (tcaches he arena_index calls) = Inl NoTcacheError) = (\<not> tcaches_enabled he)
              \<and> (fst (all_arenas_tcaches he calls) = Inl NoTcacheError) = (\<not> tcaches_enabled he)
              \<and> (\<not> tcaches_enabled he \<longrightarrow>
                    tcaches he arena_index calls = (Inl NoTcacheError, calls)
                    \<and> all_arenas_tcaches he calls = (Inl NoTcacheError, calls)))"
proof (intro conjI impI)
  assume "is_libc_version_lower_than pi [2, 26]"
  then show "\<exists>he. HeapExplorer_init pi msp hp etp calls_init = (Inr he, calls_init) \<and> \<not> tcaches_enabled he"
    by (rule HeapExplorer_init_old_libc)
next
  assume init: "HeapExplorer_init pi msp hp etp calls_init = (Inr he, calls_built)"
  note f = HeapExplorer_init_fields(1,3) [OF init]
  show "(fst (tcaches he arena_index calls) = Inl NoTcacheError) = (\<not> tcaches_enabled he)"
  proof (cases "tcaches_enabled he")
    case False
    then show ?thesis by (simp add: tcaches_def)
  next
    case True
    have "fst (tcaches he arena_index calls) \<noteq> Inl NoTcacheError"
    proof (cases "msp (heap_explorer_partial.main_arena_address he)")
      case (Inl e)
      with assms(1) have "e \<noteq> NoTcacheError" by metis
      with Inl True f show ?thesis
        by (simp add: tcaches_def malloc_state_def all_arenas_malloc_states_def)
    next
      case (Inr mss)
      show ?thesis
      proof (cases "getitem mss arena_index")
        case (Inl e)
        then have "e = IndexError" by (rule getitem_error)
        with Inl Inr True f show ?thesis
          by (simp add: tcaches_def malloc_state_def all_arenas_malloc_states_def)
      next
        case ms: (Inr ms)
        with Inr True f assms(2) show ?thesis
          by (simp add: tcaches_def malloc_state_def all_arenas_malloc_states_def)
      qed
    qed
    with True show ?thesis by simp
  qed
  show "(fst (all_arenas_tcaches he calls) = Inl NoTcacheError) = (\<not> tcaches_enabled he)"
  proof (cases "tcaches_enabled he")
    case False
    then show ?thesis by (simp add: all_arenas_tcaches_def)
  next
    case True
    have "fst (all_arenas_tcaches he calls) \<noteq> Inl NoTcacheError"
    proof (cases "msp (heap_explorer_partial.main_arena_address he)")
      case (Inl e)
      with assms(1) have "e \<noteq> NoTcacheError" by metis
      with Inl True f show ?thesis
        by (simp add: all_arenas_tcaches_def all_arenas_malloc_states_def)
    next
      case (Inr mss)
      have "\<forall>ms. tcache_parser he ms \<noteq> Inl NoTcacheError"
        using True f assms(2) by simp
      from all_arenas_tcaches_loop_error [OF this] Inr True f show ?thesis
        by (simp add: all_arenas_tcaches_def all_arenas_malloc_states_def)
    qed
    with True show ?thesis by simp
  qed
next
  assume "\<not> tcaches_enabled he"
  then show "tcaches he arena_index calls = (Inl NoTcacheError, calls)"
    by (simp add: tcaches_def)
next
  assume "\<not> tcaches_enabled he"
  then show "all_arenas_tcaches he calls = (Inl NoTcacheError, calls)"
    by (simp add: all_arenas_tcaches_def)
qed

theorem no_tcache_error_iff_disabled_witness:
  "(\<forall>a. parse_all_from_main_malloc_state_address two_arena_ring a \<noteq> Inl NoTcacheError)
   \<and> (\<forall>ms. no_tcaches ms \<noteq> Inl NoTcacheError)
   \<and> is_libc_version_lower_than (informer_of [2, 25]) [2, 26]
   \<and> HeapExplorer_init (informer_of [2, 25]) (parse_all_from_main_malloc_state_address two_arena_ring)
        (heap_with_first_size 0x250) no_tcaches [] = (Inr old_libc_explorer, [])
   \<and> \<not> tcaches_enabled old_libc_explorer
   \<and> tcaches old_libc_explorer 0 [] = (Inl NoTcacheError, [])
   \<and> all_arenas_tcaches old_libc_explorer [] = (Inl NoTcacheError, [])
   \<and> tcaches_enabled new_libc_explorer
   \<and> fst (tcaches new_libc_explorer 0 []) \<noteq> Inl NoTcacheError
   \<and> fst (all_arenas_tcaches new_libc_explorer []) \<noteq> Inl NoTcacheError"
proof -
  have m: "\<forall>a. parse_all_from_main_malloc_state_address two_arena_ring a \<noteq> Inl NoTcacheError"
    by (simp add: parse_all_from_main_malloc_state_address_def)
  have t: "\<forall>ms. no_tcaches ms \<noteq> Inl NoTcacheError"
    by (simp add: no_tcaches_def)
  have v: "is_libc_version_lower_than (informer_of [2, 25]) [2, 26]"
    by (simp add: is_libc_version_lower_than_def informer_of_def)
  have d: "\<not> tcaches_enabled old_libc_explorer"
    by (simp add: old_libc_explorer_def)
  have e: "tcaches_enabled new_libc_explorer"
    by (simp add: new_libc_explorer_def)
  from no_tcache_error_iff_disabled [OF m t, where pi = "informer_of [2, 25]"
      and hp = "heap_with_first_size 0x250" and calls_init = "[]" and calls_built = "[]"
      and he = old_libc_explorer and arena_index = 0 and calls = "[]"]
    old_libc_explorer_init d
  have old: "tcaches old_libc_explorer 0 [] = (Inl NoTcacheError, [])"
    "all_arenas_tcaches old_libc_explorer [] = (Inl NoTcacheError, [])"
    by blast+
  from no_tcache_error_iff_disabled [OF m t, where pi = "informer_of [2, 31]"
      and hp = "heap_with_first_size 0x250" and calls_init = "[]"
      and calls_built = "[ParseAllMallocStates 0x7F0000, ParseHeap (arena_at 0x7F0000 0x7E0000)]"
      and he = new_libc_explorer and arena_index = 0 and calls = "[]"]
    new_libc_explorer_init e
  have new: "fst (tcaches new_libc_explorer 0 []) \<noteq> Inl NoTcacheError"
    "fst (all_arenas_tcaches new_libc_explorer []) \<noteq> Inl NoTcacheError"
    by blast+
  from m t v old_libc_explorer_init d old e new show ?thesis by blast
qed

section \<open>The number of arenas\<close>

text \<open>
  C8. \<open>arenas_count\<close> returns the length of the list that \<open>all_arenas_malloc_states\<close>
  returns, raises what it raises, and makes the same calls. With the ring walk of the spec
  as the malloc state parser, a ring of two arenas (the \<open>next\<close> of the main arena is a
  second arena, whose \<open>next\<close> is the main arena) gives two malloc states and the count 2,
  and a main arena whose \<open>next\<close> is itself gives one malloc state and the count 1.
\<close>

theorem arenas_count_is_ring_length:
  fixes self :: "'a heap_explorer_partial_scheme"
  shows "fst (arenas_count self calls)
           = map_sum id (\<lambda>malloc_states. int (length malloc_states))
               (fst (all_arenas_malloc_states self calls))
         \<and> snd (arenas_count self calls) = snd (all_arenas_malloc_states self calls)
         \<and> (malloc_state_parser self = parse_all_from_main_malloc_state_address arenas
              \<and> map_of arenas (heap_explorer_partial.main_arena_address self) = Some main
              \<and> malloc_state.next main = second_address
              \<and> second_address \<noteq> heap_explorer_partial.main_arena_address self
              \<and> map_of arenas second_address = Some second_arena
              \<and> malloc_state.next second_arena = heap_explorer_partial.main_arena_address self
            \<longrightarrow> fst (all_arenas_malloc_states self calls) = Inr [main, second_arena]
                \<and> fst (arenas_count self calls) = Inr 2)
         \<and> (malloc_state_parser self = parse_all_from_main_malloc_state_address arenas
              \<and> map_of arenas (heap_explorer_partial.main_arena_address self) = Some main
              \<and> malloc_state.next main = heap_explorer_partial.main_arena_address self
            \<longrightarrow> fst (all_arenas_malloc_states self calls) = Inr [main]
                \<and> fst (arenas_count self calls) = Inr 1)"
proof (intro conjI impI)
  show "fst (arenas_count self calls)
        = map_sum id (\<lambda>malloc_states. int (length malloc_states))
            (fst (all_arenas_malloc_states self calls))"
    by (simp add: arenas_count_def split: prod.splits sum.splits)
  show "snd (arenas_count self calls) = snd (all_arenas_malloc_states self calls)"
    by (simp add: arenas_count_def split: prod.splits sum.splits)
next
  assume a: "malloc_state_parser self = parse_all_from_main_malloc_state_address arenas
              \<and> map_of arenas (heap_explorer_partial.main_arena_address self) = Some main
              \<and> malloc_state.next main = second_address
              \<and> second_address \<noteq> heap_explorer_partial.main_arena_address self
              \<and> map_of arenas second_address = Some second_arena
              \<and> malloc_state.next second_arena = heap_explorer_partial.main_arena_address self"
  then show two: "fst (all_arenas_malloc_states self calls) = Inr [main, second_arena]"
    by (simp add: all_arenas_malloc_states_def parse_all_from_main_malloc_state_address_def)
  then show "fst (arenas_count self calls) = Inr 2"
    by (auto simp: arenas_count_def split: prod.splits sum.splits)
next
  assume a: "malloc_state_parser self = parse_all_from_main_malloc_state_address arenas
              \<and> map_of arenas (heap_explorer_partial.main_arena_address self) = Some main
              \<and> malloc_state.next main = heap_explorer_partial.main_arena_address self"
  then show one: "fst (all_arenas_malloc_states self calls) = Inr [main]"
    by (simp add: all_arenas_malloc_states_def parse_all_from_main_malloc_state_address_def)
  then show "fst (arenas_count self calls) = Inr 1"
    by (auto simp: arenas_count_def split: prod.splits sum.splits)
qed

theorem arenas_count_is_ring_length_witness:
  "malloc_state_parser (explorer_of two_arena_ring)
     = parse_all_from_main_malloc_state_address two_arena_ring
   \<and> map_of two_arena_ring (heap_explorer_partial.main_arena_address (explorer_of two_arena_ring))
       = Some (arena_at 0x7F0000 0x7E0000)
   \<and> malloc_state.next (arena_at 0x7F0000 0x7E0000) = 0x7E0000
   \<and> 0x7E0000 \<noteq> heap_explorer_partial.main_arena_address (explorer_of two_arena_ring)
   \<and> map_of two_arena_ring 0x7E0000 = Some (arena_at 0x7E0000 0x7F0000)
   \<and> malloc_state.next (arena_at 0x7E0000 0x7F0000)
       = heap_explorer_partial.main_arena_address (explorer_of two_arena_ring)
   \<and> fst (all_arenas_malloc_states (explorer_of two_arena_ring) [])
       = Inr [arena_at 0x7F0000 0x7E0000, arena_at 0x7E0000 0x7F0000]
   \<and> fst (arenas_count (explorer_of two_arena_ring) []) = Inr 2
   \<and> malloc_state_parser (explorer_of self_ring) = parse_all_from_main_malloc_state_address self_ring
   \<and> map_of self_ring (heap_explorer_partial.main_arena_address (explorer_of self_ring))
       = Some (arena_at 0x7F0000 0x7F0000)
   \<and> malloc_state.next (arena_at 0x7F0000 0x7F0000)
       = heap_explorer_partial.main_arena_address (explorer_of self_ring)
   \<and> fst (all_arenas_malloc_states (explorer_of self_ring) []) = Inr [arena_at 0x7F0000 0x7F0000]
   \<and> fst (arenas_count (explorer_of self_ring) []) = Inr 1"
proof -
  have two: "malloc_state_parser (explorer_of two_arena_ring)
       = parse_all_from_main_malloc_state_address two_arena_ring
     \<and> map_of two_arena_ring (heap_explorer_partial.main_arena_address (explorer_of two_arena_ring))
         = Some (arena_at 0x7F0000 0x7E0000)
     \<and> malloc_state.next (arena_at 0x7F0000 0x7E0000) = 0x7E0000
     \<and> 0x7E0000 \<noteq> heap_explorer_partial.main_arena_address (explorer_of two_arena_ring)
     \<and> map_of two_arena_ring 0x7E0000 = Some (arena_at 0x7E0000 0x7F0000)
     \<and> malloc_state.next (arena_at 0x7E0000 0x7F0000)
         = heap_explorer_partial.main_arena_address (explorer_of two_arena_ring)"
    by (simp add: explorer_of_def two_arena_ring_def arena_at_def)
  have one: "malloc_state_parser (explorer_of self_ring)
       = parse_all_from_main_malloc_state_address self_ring
     \<and> map_of self_ring (heap_explorer_partial.main_arena_address (explorer_of self_ring))
         = Some (arena_at 0x7F0000 0x7F0000)
     \<and> malloc_state.next (arena_at 0x7F0000 0x7F0000)
         = heap_explorer_partial.main_arena_address (explorer_of self_ring)"
    by (simp add: explorer_of_def self_ring_def arena_at_def)
  from two one
    arenas_count_is_ring_length [where self = "explorer_of two_arena_ring"
      and arenas = two_arena_ring and main = "arena_at 0x7F0000 0x7E0000" and second_address = "0x7E0000"
      and second_arena = "arena_at 0x7E0000 0x7F0000" and calls = "[]"]
    arenas_count_is_ring_length [where self = "explorer_of self_ring"
      and arenas = self_ring and main = "arena_at 0x7F0000 0x7F0000" and calls = "[]"]
  show ?thesis by blast
qed

section \<open>Selecting an arena\<close>

text \<open>
  C10, as amended. When \<open>all_arenas_malloc_states\<close> returns a list of \<open>n\<close> malloc
  states, \<open>arenas_count\<close> returns \<open>n\<close> and \<open>malloc_state(arena_index)\<close> returns the
  element at \<open>arena_index\<close> for \<open>0 \<le> arena_index < n\<close>, raises \<open>IndexError\<close> for
  \<open>arena_index \<ge> n\<close>, returns the element at \<open>n + arena_index\<close> for
  \<open>-n \<le> arena_index < 0\<close> (the last one for \<open>-1\<close> when the list is not empty), and
  raises \<open>IndexError\<close> for \<open>arena_index < -n\<close>.
\<close>

theorem malloc_state_is_getitem:
  fixes self :: "'a heap_explorer_partial_scheme"
  assumes "fst (all_arenas_malloc_states self calls) = Inr malloc_states"
  shows "fst (arenas_count self calls) = Inr (int (length malloc_states))
         \<and> (0 \<le> arena_index \<and> arena_index < int (length malloc_states) \<longrightarrow>
              fst (malloc_state self arena_index calls) = Inr (malloc_states ! nat arena_index))
         \<and> (int (length malloc_states) \<le> arena_index \<longrightarrow>
              fst (malloc_state self arena_index calls) = Inl IndexError)
         \<and> (- int (length malloc_states) \<le> arena_index \<and> arena_index < 0 \<longrightarrow>
              fst (malloc_state self arena_index calls)
              = Inr (malloc_states ! nat (int (length malloc_states) + arena_index)))
         \<and> (arena_index < - int (length malloc_states) \<longrightarrow>
              fst (malloc_state self arena_index calls) = Inl IndexError)
         \<and> (malloc_states \<noteq> [] \<longrightarrow>
              fst (malloc_state self (- 1) calls) = Inr (last malloc_states))"
proof -
  have m: "fst (malloc_state self i calls) = getitem malloc_states i" for i
    using assms by (auto simp: malloc_state_def split: prod.splits sum.splits)
  have "fst (arenas_count self calls) = Inr (int (length malloc_states))"
    using assms by (auto simp: arenas_count_def split: prod.splits sum.splits)
  moreover have "malloc_states \<noteq> [] \<longrightarrow> getitem malloc_states (- 1) = Inr (last malloc_states)"
    by (cases malloc_states rule: rev_cases) (simp_all add: getitem_def)
  ultimately show ?thesis
    by (simp add: m) (simp add: getitem_def)
qed

text \<open>
  C10 as stated has every negative index select from the end rather than fail. With one
  arena, the index \<open>-2\<close> raises \<open>IndexError\<close>.
\<close>

theorem malloc_state_is_getitem_counterexample:
  "(- 2 :: int) < 0
   \<and> fst (all_arenas_malloc_states (explorer_of self_ring) []) = Inr [arena_at 0x7F0000 0x7F0000]
   \<and> fst (malloc_state (explorer_of self_ring) (- 2) []) = Inl IndexError"
  by (simp add: malloc_state_def all_arenas_malloc_states_def getitem_def explorer_of_def
        self_ring_states)

theorem malloc_state_is_getitem_witness:
  "fst (all_arenas_malloc_states (explorer_of two_arena_ring) [])
     = Inr [arena_at 0x7F0000 0x7E0000, arena_at 0x7E0000 0x7F0000]
   \<and> fst (arenas_count (explorer_of two_arena_ring) []) = Inr 2
   \<and> fst (malloc_state (explorer_of two_arena_ring) 0 []) = Inr (arena_at 0x7F0000 0x7E0000)
   \<and> fst (malloc_state (explorer_of two_arena_ring) 1 []) = Inr (arena_at 0x7E0000 0x7F0000)
   \<and> fst (malloc_state (explorer_of two_arena_ring) 2 []) = Inl IndexError
   \<and> fst (malloc_state (explorer_of two_arena_ring) (- 1) []) = Inr (arena_at 0x7E0000 0x7F0000)
   \<and> fst (malloc_state (explorer_of two_arena_ring) (- 2) []) = Inr (arena_at 0x7F0000 0x7E0000)
   \<and> fst (malloc_state (explorer_of two_arena_ring) (- 3) []) = Inl IndexError"
proof -
  have s: "fst (all_arenas_malloc_states (explorer_of two_arena_ring) [])
           = Inr [arena_at 0x7F0000 0x7E0000, arena_at 0x7E0000 0x7F0000]"
    by (simp add: all_arenas_malloc_states_def explorer_of_def two_arena_ring_states)
  note t = malloc_state_is_getitem [OF s]
  show ?thesis
    using s t [of 0] t [of 1] t [of 2] t [of "- 1"] t [of "- 2"] t [of "- 3"]
    by simp
qed

end
